theory Spec2Isabelle
  imports Main
begin

section \<open>JavaScript strings\<close>

text \<open>
  A JavaScript string is a sequence of UTF-16 code units; a code unit is modelled by its
  number. \<open>js\<close> turns an ASCII literal into such a sequence.
\<close>

type_synonym jsstring = "nat list"

definition js :: "string \<Rightarrow> jsstring" where
  "js s = map of_char s"

text \<open>The characters \<open>String.prototype.trim\<close> removes and the regular expression
  class \<open>\s\<close> matches: white space and line terminators of ECMAScript.\<close>

definition isWhiteSpace :: "nat \<Rightarrow> bool" where
  "isWhiteSpace c =
     (c = 9 \<or> c = 10 \<or> c = 11 \<or> c = 12 \<or> c = 13 \<or> c = 32 \<or> c = 160 \<or> c = 5760
      \<or> (8192 \<le> c \<and> c \<le> 8202) \<or> c = 8232 \<or> c = 8233 \<or> c = 8239 \<or> c = 8287
      \<or> c = 12288 \<or> c = 65279)"

definition trimStart :: "jsstring \<Rightarrow> jsstring" where
  "trimStart s = dropWhile isWhiteSpace s"

definition trimEnd :: "jsstring \<Rightarrow> jsstring" where
  "trimEnd s = rev (dropWhile isWhiteSpace (rev s))"

definition trim :: "jsstring \<Rightarrow> jsstring" where
  "trim s = trimEnd (trimStart s)"

fun startsWith :: "jsstring \<Rightarrow> jsstring \<Rightarrow> bool" where
  "startsWith s [] = True"
| "startsWith [] (p # ps) = False"
| "startsWith (c # cs) (p # ps) = (c = p \<and> startsWith cs ps)"

text \<open>\<open>includesStr s needle\<close> is \<open>s.includes(needle)\<close>.\<close>

fun includesStr :: "jsstring \<Rightarrow> jsstring \<Rightarrow> bool" where
  "includesStr [] needle = (needle = [])"
| "includesStr (c # cs) needle = (startsWith (c # cs) needle \<or> includesStr cs needle)"

text \<open>\<open>split sep s\<close> is \<open>s.split(sep)\<close> for a separator of one code unit: the empty
  string gives one empty piece.\<close>

fun split :: "nat \<Rightarrow> jsstring \<Rightarrow> jsstring list" where
  "split sep [] = [[]]"
| "split sep (c # cs) =
     (if c = sep then [] # split sep cs
      else (case split sep cs of
              [] \<Rightarrow> [[c]]
            | l # ls \<Rightarrow> (c # l) # ls))"

text \<open>\<open>join sep xs\<close> is \<open>xs.join(sep)\<close>.\<close>

fun join :: "jsstring \<Rightarrow> jsstring list \<Rightarrow> jsstring" where
  "join sep [] = []"
| "join sep [x] = x"
| "join sep (x # y # ys) = x @ sep @ join sep (y # ys)"

text \<open>\<open>lines[i]\<close>: reading past the end of an array gives \<open>undefined\<close>.\<close>

fun at :: "'a list \<Rightarrow> nat \<Rightarrow> 'a option" where
  "at [] i = None"
| "at (x # xs) 0 = Some x"
| "at (x # xs) (Suc i) = at xs i"

definition newline :: nat where
  "newline = 10"

subsection \<open>Numbers as text\<close>

definition digitChar :: "nat \<Rightarrow> nat" where
  "digitChar d = (if d < 10 then 48 + d else 87 + d)"

text \<open>\<open>toStringRadix r n\<close> is \<open>n.toString(r)\<close> for a whole number \<open>n\<close> and
  \<open>2 \<le> r \<le> 36\<close>.\<close>

function toStringRadix :: "nat \<Rightarrow> nat \<Rightarrow> jsstring" where
  "toStringRadix r n =
     (if r < 2 \<or> n < r then [digitChar n]
      else toStringRadix r (n div r) @ [digitChar (n mod r)])"
  by pat_completeness auto
termination
  by (relation "measure (\<lambda>(r, n). n)") auto

declare toStringRadix.simps [simp del]

definition showNat :: "nat \<Rightarrow> jsstring" where
  "showNat n = toStringRadix 10 n"

text \<open>\<open>padStart n c s\<close> is \<open>s.padStart(n, c)\<close> for a pad string of one code unit.\<close>

definition padStart :: "nat \<Rightarrow> nat \<Rightarrow> jsstring \<Rightarrow> jsstring" where
  "padStart n c s = replicate (n - length s) c @ s"

subsection \<open>parseInt\<close>

text \<open>
  \<open>parseInt(s)\<close> with no radix, after ECMAScript: leading white space is skipped, a sign
  is read, a prefix \<open>0x\<close> or \<open>0X\<close> selects radix 16, and the longest run of digits
  is the value; \<open>None\<close> is \<open>NaN\<close> (no digit). The value is kept exact.
\<close>

definition digitValue :: "nat \<Rightarrow> nat option" where
  "digitValue c =
     (if 48 \<le> c \<and> c \<le> 57 then Some (c - 48)
      else if 97 \<le> c \<and> c \<le> 122 then Some (c - 87)
      else if 65 \<le> c \<and> c \<le> 90 then Some (c - 55)
      else None)"

definition isRadixDigit :: "nat \<Rightarrow> nat \<Rightarrow> bool" where
  "isRadixDigit r c = (case digitValue c of None \<Rightarrow> False | Some v \<Rightarrow> v < r)"

definition digitsValue :: "nat \<Rightarrow> jsstring \<Rightarrow> nat" where
  "digitsValue r ds =
     foldl (\<lambda>acc c. acc * r + (case digitValue c of None \<Rightarrow> 0 | Some v \<Rightarrow> v)) 0 ds"

definition parseInt :: "jsstring \<Rightarrow> int option" where
  "parseInt s =
     (let s1 = trimStart s;
          neg = startsWith s1 (js ''-'');
          s2 = (if startsWith s1 (js ''-'') \<or> startsWith s1 (js ''+'') then drop 1 s1 else s1);
          hex = (startsWith s2 (js ''0x'') \<or> startsWith s2 (js ''0X''));
          r = (if hex then 16 else 10);
          s3 = (if hex then drop 2 s2 else s2);
          ds = takeWhile (isRadixDigit r) s3
      in if ds = [] then None
         else Some ((if neg then - 1 else 1) * int (digitsValue r ds)))"

section \<open>Data model (types.ts)\<close>

datatype Status = draft | approved | sent_to_slack

text \<open>
  A JavaScript number is an IEEE double: a finite value \<open>m * 2 ^ e\<close> with whole
  \<open>m\<close> and \<open>e\<close> (given here by the pair, with no bound on either), the negative
  zero, an infinity or \<open>NaN\<close>. So 1500 is \<open>Finite 1500 0\<close>, 2.5 is
  \<open>Finite 5 (- 1)\<close> and \<open>2 ^ 60\<close> is \<open>Finite 1 60\<close>.
\<close>

datatype number = Finite int int | NegativeZero | Infinity | NegativeInfinity | NaN

text \<open>
  An event plan. The objects come from JSON (the model's output, a request body), so a
  field the interface requires can still be missing at run time: every field copied from
  such an object is optional, and a field is of its declared type when it is there.
\<close>

record EventPlan =
  ep_id :: jsstring
  ep_title :: "jsstring option"
  ep_date :: "jsstring option"
  ep_time :: "jsstring option"
  ep_guests :: "jsstring list option"
  ep_timeline :: "jsstring list option"
  ep_budget :: "number option"
  ep_venue :: "jsstring option"
  ep_description :: "jsstring option"
  ep_type :: "jsstring option"
  ep_status :: Status
  ep_slackChannelId :: "jsstring option"
  ep_createdAt :: jsstring
  ep_updatedAt :: jsstring

text \<open>The \<open>text\<close>, \<open>fields\<close> and \<open>elements\<close> entries of a block.\<close>

record TextObject =
  to_type :: jsstring
  to_text :: "jsstring option"

record SlackBlock =
  sb_type :: jsstring
  sb_text :: "TextObject option"
  sb_fields :: "TextObject list option"
  sb_elements :: "TextObject list option"

section \<open>Signature verification (slack.ts)\<close>

text \<open>
  What the platform provides to \<open>verifySlackSignature\<close>: the clock
  (\<open>Math.floor(Date.now() / 1000)\<close>) and HMAC-SHA256 of Web Crypto, which takes the key
  and the message (both encoded by \<open>TextEncoder\<close>) to the bytes of the digest.
\<close>

record crypto =
  currentTime :: int
  hmacSha256 :: "jsstring \<Rightarrow> jsstring \<Rightarrow> nat list"

definition hexByte :: "nat \<Rightarrow> jsstring" where
  "hexByte b = padStart 2 48 (toStringRadix 16 b)"

definition computedSignature :: "crypto \<Rightarrow> jsstring \<Rightarrow> jsstring \<Rightarrow> jsstring \<Rightarrow> jsstring" where
  "computedSignature cr signingSecret timestamp body =
     (let baseString = js ''v0:'' @ timestamp @ js '':'' @ body;
          signatureBuffer = hmacSha256 cr signingSecret baseString
      in js ''v0='' @ concat (map hexByte signatureBuffer))"

text \<open>\<open>Math.abs(currentTime - requestTime) > 300\<close>: a comparison with \<open>NaN\<close> is
  false.\<close>

definition tooOld :: "int \<Rightarrow> int option \<Rightarrow> bool" where
  "tooOld now requestTime =
     (case requestTime of None \<Rightarrow> False | Some t \<Rightarrow> abs (now - t) > 300)"

definition verifySlackSignature ::
  "crypto \<Rightarrow> jsstring \<Rightarrow> jsstring \<Rightarrow> jsstring \<Rightarrow> jsstring \<Rightarrow> bool" where
  "verifySlackSignature cr signingSecret timestamp body signature =
     (let requestTime = parseInt timestamp
      in if tooOld (currentTime cr) requestTime then False
         else computedSignature cr signingSecret timestamp body = signature)"

section \<open>The platform\<close>

text \<open>
  The Slack messages and the values that cross the boundary of the worker. A message text
  is typed as a string; the mention handler posts the model's \<open>response\<close> whatever it
  is, so a text is a string, an already parsed object or \<open>undefined\<close>.
\<close>

text \<open>The \<open>event\<close> object of the model's JSON: the fields of an event plan that it
  can carry and that the handlers do not overwrite.\<close>

record EventFields =
  ef_id :: "jsstring option"
  ef_title :: "jsstring option"
  ef_date :: "jsstring option"
  ef_time :: "jsstring option"
  ef_guests :: "jsstring list option"
  ef_timeline :: "jsstring list option"
  ef_budget :: "number option"
  ef_venue :: "jsstring option"
  ef_description :: "jsstring option"
  ef_type :: "jsstring option"
  ef_slackChannelId :: "jsstring option"

text \<open>What \<open>JSON.parse\<close> gives for the model's output, read at the properties the
  handlers read: \<open>action\<close>, \<open>event\<close> (an object when it is there) and \<open>response\<close>.\<close>

record ParsedResponse =
  pr_action :: "jsstring option"
  pr_event :: "EventFields option"
  pr_response :: "jsstring option"

datatype AiResponse = AiText jsstring | AiObject ParsedResponse | AiUndefined

record SlackMessage =
  sm_channel :: "jsstring option"
  sm_text :: AiResponse
  sm_blocks :: "SlackBlock list option"

record PostResult =
  po_ok :: bool
  po_error :: "jsstring option"

text \<open>A message of \<open>conversations.history\<close>, and the body of its response.\<close>

record HistoryMessage =
  hm_blocks :: "SlackBlock list option"
  hm_text :: "jsstring option"

record HistoryData =
  hd_ok :: "bool option"
  hd_messages :: "HistoryMessage list option"
  hd_error :: "jsstring option"

record ChatMessage =
  cm_role :: jsstring
  cm_content :: jsstring

text \<open>How a call of \<open>env.AI.run\<close> ends: it resolves with an object whose
  \<open>response\<close> is given, it rejects with an error of the given message, or it resolves
  only after the 15 seconds the mention handler waits.\<close>

datatype AiOutcome = Resolved AiResponse | Rejected jsstring | Slow AiResponse

text \<open>The payload of a webhook, as \<open>JSON.parse\<close> gives it, read at the properties the
  handler reads.\<close>

record SlackEvent =
  ev_type :: "jsstring option"
  ev_bot_id :: "jsstring option"
  ev_text :: "jsstring option"
  ev_channel :: "jsstring option"

record Payload =
  pl_type :: "jsstring option"
  pl_challenge :: "jsstring option"
  pl_event :: "SlackEvent option"

text \<open>
  Everything the worker gets from its runtime and from the services it calls, as
  parameters of the model: the clock, Web Crypto, \<open>JSON.parse\<close> (\<open>None\<close> when it
  throws, and for \<open>null\<close>, whose properties cannot be read), \<open>toLowerCase\<close>, the
  date formats of \<open>Intl\<close> (\<open>toLongDate d\<close> is
  \<open>new Date(d).toLocaleDateString("en-US", ...)\<close> with the long options,
  \<open>todayShortDate\<close> is \<open>new Date().toLocaleDateString()\<close>),
  \<open>Number.prototype.toLocaleString\<close> with no argument, the readings of
  \<open>new Date().toISOString()\<close> in the order a handler takes them,
  \<open>crypto.randomUUID\<close>, the inference binding (by messages and \<open>max_tokens\<close>), and
  the two Slack endpoints (\<open>None\<close> when \<open>fetch\<close> or \<open>response.json()\<close> throws).
  The two prompt constants of the source are parameters as well: their text plays no
  role in what follows.
\<close>

record platform =
  pf_crypto :: crypto
  parsePayload :: "jsstring \<Rightarrow> Payload option"
  parseModelOutput :: "jsstring \<Rightarrow> ParsedResponse option"
  toLowerCase :: "jsstring \<Rightarrow> jsstring"
  toLongDate :: "jsstring option \<Rightarrow> jsstring"
  toLocaleString :: "number \<Rightarrow> jsstring"
  todayShortDate :: jsstring
  toISOString :: "nat \<Rightarrow> jsstring"
  randomUUID :: jsstring
  aiRun :: "ChatMessage list \<Rightarrow> nat \<Rightarrow> AiOutcome"
  chatPostMessage :: "jsstring option \<Rightarrow> SlackMessage \<Rightarrow> PostResult option"
  conversationsHistory :: "jsstring \<Rightarrow> jsstring \<Rightarrow> HistoryData option"
  SLACK_SYSTEM_PROMPT :: jsstring
  CHAT_SYSTEM_PROMPT :: jsstring

record Env =
  SLACK_BOT_TOKEN :: "jsstring option"
  SLACK_SIGNING_SECRET :: "jsstring option"

text \<open>The calls a handler makes to the outside, in order.\<close>

datatype call =
    CallAi "ChatMessage list" nat
  | CallPostMessage "jsstring option" SlackMessage
  | CallHistory jsstring jsstring

datatype error = TypeError | SyntaxError

text \<open>A string in a condition: \<open>undefined\<close> and the empty string are false.\<close>

definition truthy :: "jsstring option \<Rightarrow> bool" where
  "truthy v = (case v of None \<Rightarrow> False | Some s \<Rightarrow> s \<noteq> [])"

text \<open>A string in a template literal: \<open>undefined\<close> prints as such.\<close>

definition template :: "jsstring option \<Rightarrow> jsstring" where
  "template v = (case v of None \<Rightarrow> js ''undefined'' | Some s \<Rightarrow> s)"

section \<open>Encoding a plan as a rich message (slack.ts)\<close>

text \<open>The digits of a whole number in groups of three, separated by commas: what the
  locale \<open>en-US\<close> prints for a whole number that it prints exactly.\<close>

function groupThousands :: "nat \<Rightarrow> jsstring" where
  "groupThousands n =
     (if n < 1000 then showNat n
      else groupThousands (n div 1000) @ js '','' @ padStart 3 48 (showNat (n mod 1000)))"
  by pat_completeness auto
termination
  by (relation "measure (\<lambda>n. n)") auto

declare groupThousands.simps [simp del]

definition mrkdwn :: "jsstring \<Rightarrow> TextObject" where
  "mrkdwn s = \<lparr>to_type = js ''mrkdwn'', to_text = Some s\<rparr>"

definition sectionText :: "jsstring \<Rightarrow> SlackBlock" where
  "sectionText s =
     \<lparr>sb_type = js ''section'', sb_text = Some (mrkdwn s), sb_fields = None,
      sb_elements = None\<rparr>"

definition bullet :: jsstring where
  "bullet = [8226, 32]"

definition envelope :: jsstring where
  "envelope = [55357, 56551]"

text \<open>The numbered lines of the timeline: \<open>`${index + 1}. ${item}`\<close>.\<close>

fun numbered :: "nat \<Rightarrow> jsstring list \<Rightarrow> jsstring list" where
  "numbered i [] = []"
| "numbered i (item # items) = (showNat (i + 1) @ js ''. '' @ item) # numbered (i + 1) items"

text \<open>
  \<open>formatEventMessage\<close>. Reading \<open>length\<close> of missing guests, or calling
  \<open>toLocaleString\<close> of a missing budget, throws a \<open>TypeError\<close>.
\<close>

definition formatEventMessage :: "platform \<Rightarrow> EventPlan \<Rightarrow> error + SlackMessage" where
  "formatEventMessage pf event =
     (case ep_guests event of
        None \<Rightarrow> Inl TypeError
      | Some guests \<Rightarrow>
     (case ep_budget event of
        None \<Rightarrow> Inl TypeError
      | Some budget \<Rightarrow>
          let formattedDate = toLongDate pf (ep_date event);
              blocks0 =
                [\<lparr>sb_type = js ''header'',
                  sb_text = Some \<lparr>to_type = js ''plain_text'',
                                  to_text = Some (template (ep_title event))\<rparr>,
                  sb_fields = None, sb_elements = None\<rparr>,
                 \<lparr>sb_type = js ''section'', sb_text = None,
                  sb_fields = Some
                    [mrkdwn (js ''*Date:*'' @ [newline] @ formattedDate),
                     mrkdwn (js ''*Expected Guests:*'' @ [newline]
                             @ (if length guests > 0 then showNat (length guests)
                                else js ''TBD'')),
                     mrkdwn (js ''*Budget:*'' @ [newline] @ js ''$''
                             @ toLocaleString pf budget),
                     mrkdwn (js ''*Venue:*'' @ [newline]
                             @ (if truthy (ep_venue event) then template (ep_venue event)
                                else js ''TBD''))],
                  sb_elements = None\<rparr>];
              blocks1 =
                (if truthy (ep_description event)
                 then [sectionText (js ''*Description:*'' @ [newline]
                                    @ template (ep_description event))]
                 else []);
              blocks2 =
                (case ep_timeline event of
                   None \<Rightarrow> []
                 | Some timeline \<Rightarrow>
                     if length timeline > 0
                     then [sectionText (js ''*Timeline:*'' @ [newline]
                                        @ join [newline] (numbered 0 timeline))]
                     else []);
              blocks3 =
                (if length guests > 0
                 then [sectionText (js ''*'' @ envelope @ js '' Guest List:*'' @ [newline]
                                    @ join [newline] (map (\<lambda>guest. bullet @ guest) guests))]
                 else []);
              blocks4 =
                [\<lparr>sb_type = js ''divider'', sb_text = None, sb_fields = None,
                  sb_elements = None\<rparr>,
                 \<lparr>sb_type = js ''context'', sb_text = None, sb_fields = None,
                  sb_elements = Some
                    [mrkdwn (js ''Event created by AI Event Planner '' @ bullet
                             @ todayShortDate pf)]\<rparr>]
          in Inr \<lparr>sm_channel =
                     Some (if truthy (ep_slackChannelId event)
                           then template (ep_slackChannelId event) else []),
                   sm_text = AiText (js ''Event Plan: '' @ template (ep_title event)),
                   sm_blocks = Some (blocks0 @ blocks1 @ blocks2 @ blocks3 @ blocks4)\<rparr>))"

text \<open>\<open>postMessage\<close>: a failure of the request is caught and reported as a result.\<close>

definition postMessage ::
  "platform \<Rightarrow> jsstring option \<Rightarrow> SlackMessage \<Rightarrow> PostResult \<times> call list" where
  "postMessage pf token message =
     ((case chatPostMessage pf token message of
         Some result \<Rightarrow> result
       | None \<Rightarrow> \<lparr>po_ok = False, po_error = Some (js ''Network error'')\<rparr>),
      [CallPostMessage token message])"

definition postEventPlan ::
  "platform \<Rightarrow> jsstring option \<Rightarrow> EventPlan \<Rightarrow> (error + PostResult) \<times> call list" where
  "postEventPlan pf token event =
     (if \<not> truthy (ep_slackChannelId event)
      then (Inr \<lparr>po_ok = False, po_error = Some (js ''No Slack channel ID specified'')\<rparr>, [])
      else (case formatEventMessage pf event of
              Inl e \<Rightarrow> (Inl e, [])
            | Inr message \<Rightarrow>
                (case postMessage pf token message of (result, calls) \<Rightarrow> (Inr result, calls))))"

section \<open>Recovering a plan from a message (handlers/slack.ts)\<close>

text \<open>The glyph of the source's patterns, as the source file has it: the code units
  U+00F0, U+0178, U+017D, U+2030.\<close>

definition glyph :: jsstring where
  "glyph = [240, 376, 381, 8240]"

text \<open>
  A partial plan, as \<open>extractEventFromBlocks\<close> and \<open>extractEventFromText\<close> build
  it. The outer option of a field says whether the object has the key (what
  \<open>Object.keys\<close> counts); \<open>Some None\<close> is a key whose value is \<open>undefined\<close>,
  which \<open>lines[1]?.trim()\<close> gives when the field has one line. A recovered budget is
  text.
\<close>

record PartialPlan =
  pp_title :: "jsstring option"
  pp_date :: "jsstring option option"
  pp_budget :: "jsstring option option"
  pp_venue :: "jsstring option option"
  pp_timeline :: "jsstring list option"

definition emptyPlan :: PartialPlan where
  "emptyPlan =
     \<lparr>pp_title = None, pp_date = None, pp_budget = None, pp_venue = None,
      pp_timeline = None\<rparr>"

definition keyCount :: "PartialPlan \<Rightarrow> nat" where
  "keyCount p =
     (if pp_title p = None then 0 else 1) + (if pp_date p = None then 0 else 1)
     + (if pp_budget p = None then 0 else 1) + (if pp_venue p = None then 0 else 1)
     + (if pp_timeline p = None then 0 else 1)"

text \<open>\<open>s.replace(/GLYPH\s*/, '')\<close>: the first glyph and the white space after it.\<close>

fun removeGlyph :: "jsstring \<Rightarrow> jsstring" where
  "removeGlyph [] = []"
| "removeGlyph (c # cs) =
     (if startsWith (c # cs) glyph
      then dropWhile isWhiteSpace (drop (length glyph) (c # cs))
      else c # removeGlyph cs)"

text \<open>
  \<open>s.replace(/\*Timeline:\*\s*\n/, '')\<close>: the first label that is followed by white
  space with a line feed in it, up to the last line feed of that white space (the
  greedy \<open>\s*\<close> gives back what follows it).
\<close>

definition afterLastNewline :: "jsstring \<Rightarrow> jsstring" where
  "afterLastNewline ws = rev (takeWhile (\<lambda>c. c \<noteq> newline) (rev ws))"

fun removeTimelineLabel :: "jsstring \<Rightarrow> jsstring" where
  "removeTimelineLabel [] = []"
| "removeTimelineLabel (c # cs) =
     (let rest = drop (length (js ''*Timeline:*'')) (c # cs);
          ws = takeWhile isWhiteSpace rest
      in if startsWith (c # cs) (js ''*Timeline:*'') \<and> newline \<in> set ws
         then afterLastNewline ws @ dropWhile isWhiteSpace rest
         else c # removeTimelineLabel cs)"

text \<open>\<open>budgetText.replace(/[$,]/g, '')\<close>.\<close>

definition stripCurrency :: "jsstring \<Rightarrow> jsstring" where
  "stripCurrency s = filter (\<lambda>c. c \<noteq> 36 \<and> c \<noteq> 44) s"

text \<open>\<open>text.split('\n')[1]?.trim()\<close>.\<close>

definition secondLine :: "jsstring \<Rightarrow> jsstring option" where
  "secondLine text = map_option trim (at (split newline text) 1)"

definition extractField :: "PartialPlan \<Rightarrow> TextObject \<Rightarrow> PartialPlan" where
  "extractField eventPlan field =
     (let text = (if truthy (to_text field) then template (to_text field) else [])
      in if includesStr text (js ''Date:'')
         then eventPlan\<lparr>pp_date := Some (secondLine text)\<rparr>
         else if includesStr text (js ''Budget:'')
         then eventPlan\<lparr>pp_budget := Some (map_option stripCurrency (secondLine text))\<rparr>
         else if includesStr text (js ''Venue:'')
         then eventPlan\<lparr>pp_venue := Some (secondLine text)\<rparr>
         else eventPlan)"

text \<open>\<open>block.text?.text\<close>.\<close>

definition blockText :: "SlackBlock \<Rightarrow> jsstring option" where
  "blockText block = (case sb_text block of None \<Rightarrow> None | Some t \<Rightarrow> to_text t)"

definition timelineLines :: "jsstring \<Rightarrow> jsstring list" where
  "timelineLines text =
     filter (\<lambda>line. length line > 0) (map trim (split newline (removeTimelineLabel text)))"

definition extractSection :: "PartialPlan \<Rightarrow> SlackBlock \<Rightarrow> PartialPlan" where
  "extractSection eventPlan section =
     (case sb_fields section of
        Some flds \<Rightarrow> foldl extractField eventPlan flds
      | None \<Rightarrow>
          if truthy (blockText section)
          then (let text = template (blockText section)
                in if includesStr text (js ''Timeline:'')
                   then eventPlan\<lparr>pp_timeline := Some (timelineLines text)\<rparr>
                   else eventPlan)
          else eventPlan)"

definition extractEventFromBlocks :: "SlackBlock list \<Rightarrow> PartialPlan option" where
  "extractEventFromBlocks blocks =
     (let headerBlock = find (\<lambda>block. sb_type block = js ''header'') blocks;
          headerText = (case headerBlock of None \<Rightarrow> None | Some h \<Rightarrow> blockText h);
          eventPlan0 =
            (if truthy headerText
             then emptyPlan\<lparr>pp_title := Some (trim (removeGlyph (template headerText)))\<rparr>
             else emptyPlan);
          sectionBlocks = filter (\<lambda>block. sb_type block = js ''section'') blocks;
          eventPlan = foldl extractSection eventPlan0 sectionBlocks
      in if keyCount eventPlan > 0 then Some eventPlan else None)"

subsection \<open>From the plain text\<close>

text \<open>
  \<open>text.match(/GLYPH\s*([^\n]+)/)\<close>, the group: at the first glyph where the pattern
  matches. After the glyph the white space is skipped; the group is what follows up to
  the line feed, or, when only white space follows the glyph, the last of it that is
  not a line feed (which \<open>\s*\<close> gives back).
\<close>

definition titleGroupAt :: "jsstring \<Rightarrow> jsstring option" where
  "titleGroupAt rest =
     (let r = dropWhile isWhiteSpace rest
      in if r \<noteq> [] then Some (takeWhile (\<lambda>c. c \<noteq> newline) r)
         else (case filter (\<lambda>c. c \<noteq> newline) (rev rest) of
                 [] \<Rightarrow> None
               | c # _ \<Rightarrow> Some [c]))"

fun titleMatch :: "jsstring \<Rightarrow> jsstring option" where
  "titleMatch [] = None"
| "titleMatch (c # cs) =
     (case (if startsWith (c # cs) glyph then titleGroupAt (drop (length glyph) (c # cs))
            else None) of
        Some g \<Rightarrow> Some g
      | None \<Rightarrow> titleMatch cs)"

text \<open>
  \<open>text.match(/Timeline:\*?\s*\n([\s\S]+?)(?=\n\*|$)/)\<close>, the group. The lazy group
  is the shortest non-empty text that ends before a line feed and a star, or at the end.
\<close>

fun lazyGroup :: "jsstring \<Rightarrow> jsstring" where
  "lazyGroup [] = []"
| "lazyGroup (c # cs) =
     (if cs = [] \<or> startsWith cs (newline # js ''*'') then [c] else c # lazyGroup cs)"

text \<open>After the label and the optional star: the white space must hold a line feed;
  the group starts after the last one, or after the one before it when nothing follows
  the last.\<close>

definition timelineGroupAt :: "jsstring \<Rightarrow> jsstring option" where
  "timelineGroupAt rest0 =
     (let rest = (if startsWith rest0 (js ''*'') then drop 1 rest0 else rest0);
          ws = takeWhile isWhiteSpace rest;
          tail = afterLastNewline ws @ dropWhile isWhiteSpace rest
      in if newline \<notin> set ws then None
         else if tail \<noteq> [] then Some (lazyGroup tail)
         else (let ws1 = butlast ws
               in if newline \<in> set ws1 then Some (lazyGroup (afterLastNewline ws1 @ [newline]))
                  else None))"

fun timelineMatch :: "jsstring \<Rightarrow> jsstring option" where
  "timelineMatch [] = None"
| "timelineMatch (c # cs) =
     (case (if startsWith (c # cs) (js ''Timeline:'')
            then timelineGroupAt (drop (length (js ''Timeline:'')) (c # cs))
            else None) of
        Some g \<Rightarrow> Some g
      | None \<Rightarrow> timelineMatch cs)"

definition isDigit :: "nat \<Rightarrow> bool" where
  "isDigit c = (48 \<le> c \<and> c \<le> 57)"

text \<open>\<open>/^\d+\./.test(line)\<close>.\<close>

definition startsNumbered :: "jsstring \<Rightarrow> bool" where
  "startsNumbered line =
     (takeWhile isDigit line \<noteq> [] \<and> startsWith (dropWhile isDigit line) (js ''.''))"

definition extractEventFromText :: "jsstring \<Rightarrow> PartialPlan option" where
  "extractEventFromText text =
     (let eventPlan0 =
            (case titleMatch text of
               Some g \<Rightarrow> emptyPlan\<lparr>pp_title := Some (trim g)\<rparr>
             | None \<Rightarrow> emptyPlan);
          eventPlan =
            (case timelineMatch text of
               Some timelineText \<Rightarrow>
                 eventPlan0\<lparr>pp_timeline :=
                   Some (filter (\<lambda>line. length line > 0 \<and> startsNumbered line)
                           (map trim (split newline timelineText)))\<rparr>
             | None \<Rightarrow> eventPlan0)
      in if keyCount eventPlan > 0 then Some eventPlan else None)"

subsection \<open>The context builder\<close>

definition hasEventHeader :: "SlackBlock list \<Rightarrow> bool" where
  "hasEventHeader blocks =
     list_ex (\<lambda>block.
        if sb_type block = js ''header''
        then (case blockText block of
                None \<Rightarrow> False
              | Some t \<Rightarrow> includesStr t glyph \<or> includesStr t (js ''Party'')
                          \<or> includesStr t (js ''Event''))
        else False) blocks"

definition textLooksLikePlan :: "jsstring option \<Rightarrow> bool" where
  "textLooksLikePlan text =
     (truthy text \<and>
      (includesStr (template text) (js ''Event Plan:'') \<or> includesStr (template text) glyph
       \<or> includesStr (template text) (js ''Timeline:'')))"

fun findRecentEventPlan :: "HistoryMessage list \<Rightarrow> PartialPlan option" where
  "findRecentEventPlan [] = None"
| "findRecentEventPlan (message # messages) =
     (if (case hm_blocks message of None \<Rightarrow> False | Some blocks \<Rightarrow> hasEventHeader blocks)
      then (case hm_blocks message of None \<Rightarrow> None
            | Some blocks \<Rightarrow> extractEventFromBlocks blocks)
      else if textLooksLikePlan (hm_text message)
      then extractEventFromText (template (hm_text message))
      else findRecentEventPlan messages)"

definition historyUrl :: "jsstring option \<Rightarrow> jsstring" where
  "historyUrl channel =
     js ''https://slack.com/api/conversations.history?channel='' @ template channel
     @ js ''&limit=5''"

definition getRecentChannelMessages ::
  "platform \<Rightarrow> jsstring option \<Rightarrow> jsstring \<Rightarrow> HistoryMessage list \<times> call list" where
  "getRecentChannelMessages pf channel token =
     (let url = historyUrl channel
      in ((case conversationsHistory pf url token of
             None \<Rightarrow> []
           | Some data \<Rightarrow>
               if hd_ok data \<noteq> Some True then []
               else (case hd_messages data of None \<Rightarrow> [] | Some ms \<Rightarrow> ms)),
          [CallHistory url token]))"

section \<open>Decoding the model's output\<close>

text \<open>\<open>parsedResponse.action === 'create_event' && parsedResponse.event\<close>: the
  event object when the parsed output is a plan.\<close>

definition planEvent :: "ParsedResponse option \<Rightarrow> EventFields option" where
  "planEvent parsed =
     (case parsed of
        None \<Rightarrow> None
      | Some p \<Rightarrow> if pr_action p = Some (js ''create_event'') then pr_event p else None)"

definition fence :: jsstring where
  "fence = js ''```''"

text \<open>
  \<open>responseText.match(/```(?:json)?\s*(\{[\s\S]*?\})\s*```/)\<close>, the group. After
  the opening fence, an optional \<open>json\<close> and white space, a brace opens the group; the
  lazy group ends at the first closing brace that white space and a fence follow.
\<close>

fun closeGroup :: "jsstring \<Rightarrow> jsstring option" where
  "closeGroup [] = None"
| "closeGroup (c # cs) =
     (if c = 125 \<and> startsWith (dropWhile isWhiteSpace cs) fence then Some [c]
      else map_option (\<lambda>g. c # g) (closeGroup cs))"

definition codeBlockAt :: "jsstring \<Rightarrow> jsstring option" where
  "codeBlockAt s =
     (if startsWith s fence
      then (let r0 = drop (length fence) s;
                r1 = (if startsWith r0 (js ''json'') then drop 4 r0 else r0);
                r2 = dropWhile isWhiteSpace r1
            in case r2 of
                 [] \<Rightarrow> None
               | c # cs \<Rightarrow> if c = 123 then map_option (\<lambda>g. c # g) (closeGroup cs) else None)
      else None)"

fun codeBlockMatch :: "jsstring \<Rightarrow> jsstring option" where
  "codeBlockMatch [] = None"
| "codeBlockMatch (c # cs) =
     (case codeBlockAt (c # cs) of
        Some g \<Rightarrow> Some g
      | None \<Rightarrow> codeBlockMatch cs)"

text \<open>The decoding of \<open>handleChatRequest\<close>: a response that is not a string has no
  \<open>match\<close>, and the \<open>TypeError\<close> is caught as a parse error is.\<close>

definition chatDecode :: "platform \<Rightarrow> AiResponse \<Rightarrow> ParsedResponse option" where
  "chatDecode pf response =
     (case response of
        AiText responseText \<Rightarrow>
          (let jsonText = (case codeBlockMatch responseText of
                             Some g \<Rightarrow> g
                           | None \<Rightarrow> responseText)
           in parseModelOutput pf jsonText)
      | AiObject obj \<Rightarrow> None
      | AiUndefined \<Rightarrow> None)"

text \<open>The decoding of \<open>handleSlackMention\<close>: an object is taken as it is, anything
  else goes to \<open>JSON.parse\<close> whole.\<close>

definition mentionDecode :: "platform \<Rightarrow> AiResponse \<Rightarrow> ParsedResponse option" where
  "mentionDecode pf aiResponse =
     (case aiResponse of
        AiObject obj \<Rightarrow> Some obj
      | AiText t \<Rightarrow> parseModelOutput pf t
      | AiUndefined \<Rightarrow> None)"

section \<open>The chat handler (handlers/chat.ts)\<close>

datatype ChatBody =
    PlanBody "jsstring option" EventPlan
  | ReplyBody AiResponse
  | ErrorBody jsstring

record ChatResponse =
  ch_status :: nat
  ch_body :: ChatBody

text \<open>The request body: \<open>None\<close> when \<open>request.json()\<close> throws; inside, \<open>None\<close>
  when it has no \<open>messages\<close>.\<close>

definition handleChatRequest ::
  "platform \<Rightarrow> ChatMessage list option option \<Rightarrow> ChatResponse \<times> call list" where
  "handleChatRequest pf request =
     (case request of
        None \<Rightarrow>
          (\<lparr>ch_status = 500, ch_body = ErrorBody (js ''Failed to process request'')\<rparr>, [])
      | Some given \<Rightarrow>
          let messages0 = (case given of None \<Rightarrow> [] | Some ms \<Rightarrow> ms);
              messages =
                (if \<not> list_ex (\<lambda>msg. cm_role msg = js ''system'') messages0
                 then \<lparr>cm_role = js ''system'', cm_content = CHAT_SYSTEM_PROMPT pf\<rparr>
                      # messages0
                 else messages0);
              calls = [CallAi messages 1024];
              reply = (\<lambda>response.
                (case planEvent (chatDecode pf response) of
                   Some event \<Rightarrow>
                     (\<lparr>ch_status = 200,
                       ch_body = PlanBody
                         (case chatDecode pf response of
                            None \<Rightarrow> None | Some p \<Rightarrow> pr_response p)
                         \<lparr>ep_id = (case ef_id event of None \<Rightarrow> randomUUID pf
                                    | Some i \<Rightarrow> i),
                          ep_title = ef_title event, ep_date = ef_date event,
                          ep_time = ef_time event, ep_guests = ef_guests event,
                          ep_timeline = ef_timeline event, ep_budget = ef_budget event,
                          ep_venue = ef_venue event,
                          ep_description = ef_description event, ep_type = ef_type event,
                          ep_status = draft,
                          ep_slackChannelId = ef_slackChannelId event,
                          ep_createdAt = toISOString pf 0,
                          ep_updatedAt = toISOString pf 1\<rparr>\<rparr>, calls)
                 | None \<Rightarrow> (\<lparr>ch_status = 200, ch_body = ReplyBody response\<rparr>, calls)))
          in (case aiRun pf messages 1024 of
                Rejected m \<Rightarrow>
                  (\<lparr>ch_status = 500,
                    ch_body = ErrorBody (js ''Failed to process request'')\<rparr>, calls)
              | Resolved response \<Rightarrow> reply response
              | Slow response \<Rightarrow> reply response))"

section \<open>The approval handler (handlers/events.ts)\<close>

record ApprovalRequest =
  ar_eventPlan :: "EventPlan option"
  ar_slackChannelId :: "jsstring option"
  ar_approved :: bool

record ApprovalResponse =
  ap_status :: nat
  ap_success :: "bool option"
  ap_message :: "jsstring option"
  ap_error :: "jsstring option"
  ap_eventPlan :: "EventPlan option"

text \<open>
  The result of the approval handler: the response, the plan object of the request as
  the handler leaves it, and the calls made.
\<close>

record ApprovalResult =
  res_response :: ApprovalResponse
  res_plan :: "EventPlan option"
  res_calls :: "call list"

definition approvalFailed :: ApprovalResponse where
  "approvalFailed =
     \<lparr>ap_status = 500, ap_success = None, ap_message = None,
      ap_error = Some (js ''Failed to process event approval''), ap_eventPlan = None\<rparr>"

text \<open>The request: \<open>None\<close> when \<open>request.json()\<close> throws. Writing a property of a
  missing plan throws, and so can the formatting of the plan; both end in the 500
  response.\<close>

definition handleEventApproval ::
  "platform \<Rightarrow> Env \<Rightarrow> ApprovalRequest option \<Rightarrow> ApprovalResult" where
  "handleEventApproval pf env request =
     (case request of
        None \<Rightarrow> \<lparr>res_response = approvalFailed, res_plan = None, res_calls = []\<rparr>
      | Some req \<Rightarrow>
          if \<not> ar_approved req
          then \<lparr>res_response =
                  \<lparr>ap_status = 200, ap_success = Some True,
                   ap_message = Some (js ''Event plan discarded''), ap_error = None,
                   ap_eventPlan = None\<rparr>,
                res_plan = ar_eventPlan req, res_calls = []\<rparr>
          else (case ar_eventPlan req of
                  None \<Rightarrow> \<lparr>res_response = approvalFailed, res_plan = None, res_calls = []\<rparr>
                | Some eventPlan0 \<Rightarrow>
                    let eventPlan1 =
                          eventPlan0\<lparr>ep_status := approved, ep_updatedAt := toISOString pf 0\<rparr>
                    in if truthy (ar_slackChannelId req) \<and> truthy (SLACK_BOT_TOKEN env)
                       then
                         (let eventPlan2 =
                                eventPlan1\<lparr>ep_slackChannelId := ar_slackChannelId req\<rparr>
                          in case postEventPlan pf (SLACK_BOT_TOKEN env) eventPlan2 of
                               (Inl e, calls) \<Rightarrow>
                                 \<lparr>res_response = approvalFailed, res_plan = Some eventPlan2,
                                  res_calls = calls\<rparr>
                             | (Inr result, calls) \<Rightarrow>
                                 if po_ok result
                                 then (let eventPlan3 =
                                             eventPlan2\<lparr>ep_status := sent_to_slack,
                                                        ep_updatedAt := toISOString pf 1\<rparr>
                                       in \<lparr>res_response =
                                             \<lparr>ap_status = 200, ap_success = Some True,
                                              ap_message = Some
                                                (js ''Event plan approved and sent to Slack!''),
                                              ap_error = None,
                                              ap_eventPlan = Some eventPlan3\<rparr>,
                                           res_plan = Some eventPlan3, res_calls = calls\<rparr>)
                                 else \<lparr>res_response =
                                        \<lparr>ap_status = 400, ap_success = Some False,
                                         ap_message = None,
                                         ap_error = Some (js ''Failed to post to Slack: ''
                                                          @ template (po_error result)),
                                         ap_eventPlan = Some eventPlan2\<rparr>,
                                      res_plan = Some eventPlan2, res_calls = calls\<rparr>)
                       else \<lparr>res_response =
                              \<lparr>ap_status = 200, ap_success = Some True,
                               ap_message = Some (js ''Event plan approved!''),
                               ap_error = None, ap_eventPlan = Some eventPlan1\<rparr>,
                            res_plan = Some eventPlan1, res_calls = []\<rparr>))"

section \<open>The webhook handlers (handlers/slack.ts)\<close>

definition eventKeywords :: "jsstring list" where
  "eventKeywords = [js ''plan'', js ''event'', js ''party'', js ''meeting'', js ''celebration'']"

text \<open>\<open>handleSlackMessage\<close>: the calls it makes. A rejected inference is caught and
  logged; nothing waits on a clock here, so a slow inference is answered when it comes.\<close>

definition handleSlackMessage ::
  "platform \<Rightarrow> Env \<Rightarrow> jsstring \<Rightarrow> jsstring option \<Rightarrow> call list" where
  "handleSlackMessage pf env text channel =
     (let hasEventKeyword =
            list_ex (\<lambda>keyword. includesStr (toLowerCase pf text) keyword) eventKeywords
      in if hasEventKeyword
         then (let messages =
                     [\<lparr>cm_role = js ''system'', cm_content = SLACK_SYSTEM_PROMPT pf\<rparr>,
                      \<lparr>cm_role = js ''user'', cm_content = text\<rparr>];
                   send = (\<lambda>aiResponse.
                     snd (postMessage pf (SLACK_BOT_TOKEN env)
                            \<lparr>sm_channel = channel, sm_text = aiResponse, sm_blocks = None\<rparr>))
               in CallAi messages 512 #
                  (case aiRun pf messages 512 of
                     Resolved aiResponse \<Rightarrow> send aiResponse
                   | Slow aiResponse \<Rightarrow> send aiResponse
                   | Rejected m \<Rightarrow> []))
         else [])"

definition isIdChar :: "nat \<Rightarrow> bool" where
  "isIdChar c = ((65 \<le> c \<and> c \<le> 90) \<or> (48 \<le> c \<and> c \<le> 57))"

text \<open>\<open>text.replace(/<@[A-Z0-9]+>/g, '')\<close>.\<close>

function removeMentions :: "jsstring \<Rightarrow> jsstring" where
  "removeMentions [] = []"
| "removeMentions (c # cs) =
     (let ident = takeWhile isIdChar (drop 2 (c # cs))
      in if startsWith (c # cs) (js ''<@'') \<and> ident \<noteq> []
            \<and> startsWith (drop (2 + length ident) (c # cs)) (js ''>'')
         then removeMentions (drop (3 + length ident) (c # cs))
         else c # removeMentions cs)"
  by pat_completeness auto
termination
  by (relation "measure length") auto

text \<open>\<open>item.replace(/^\d+\.\s*/, '')\<close>.\<close>

definition stripNumbering :: "jsstring \<Rightarrow> jsstring" where
  "stripNumbering item =
     (if takeWhile isDigit item \<noteq> [] \<and> startsWith (dropWhile isDigit item) (js ''.'')
      then dropWhile isWhiteSpace (drop 1 (dropWhile isDigit item))
      else item)"

definition modificationKeywords :: "jsstring list" where
  "modificationKeywords =
     [js ''swap'', js ''change'', js ''modify'', js ''update'', js ''move'', js ''history'']"

definition focusedContext :: "PartialPlan \<Rightarrow> jsstring" where
  "focusedContext recentEventPlan =
     (let joined =
            (case pp_timeline recentEventPlan of
               None \<Rightarrow> None
             | Some timeline \<Rightarrow>
                 Some (join [newline]
                         (map (\<lambda>(idx, item). showNat (idx + 1) @ js ''. '' @ stripNumbering item)
                            (enumerate 0 (take 7 timeline)))));
          timelineText = (if truthy joined then template joined
                          else js ''No timeline available'')
      in js ''You are helping modify this event plan:'' @ [newline, newline]
         @ js ''Title: '' @ template (pp_title recentEventPlan) @ [newline]
         @ js ''Current Timeline:'' @ [newline] @ timelineText @ [newline, newline]
         @ js ''The user wants to modify it. Be helpful and specific.'')"

definition noContextNote :: jsstring where
  "noContextNote =
     js '' (Note: I don'' @ [39] @ js ''t see a recent event plan in this channel. ''
     @ js ''Could you provide more context about what event you'' @ [39]
     @ js ''re referring to?)''"

text \<open>The messages sent to the model for a mention, and the history call made to build
  them. Nothing in the guarded block throws in this model, so its handler is not
  reached.\<close>

definition mentionMessages ::
  "platform \<Rightarrow> Env \<Rightarrow> jsstring \<Rightarrow> jsstring option \<Rightarrow> ChatMessage list \<times> call list" where
  "mentionMessages pf env cleanText channel =
     (let isEventModification =
            list_ex (\<lambda>keyword. includesStr (toLowerCase pf cleanText) keyword)
              modificationKeywords;
          general = [\<lparr>cm_role = js ''system'', cm_content = SLACK_SYSTEM_PROMPT pf\<rparr>,
                     \<lparr>cm_role = js ''user'', cm_content = cleanText\<rparr>]
      in if isEventModification \<and> truthy (SLACK_BOT_TOKEN env)
         then (case getRecentChannelMessages pf channel (template (SLACK_BOT_TOKEN env)) of
                 (channelHistory, calls) \<Rightarrow>
                   (case findRecentEventPlan channelHistory of
                      Some recentEventPlan \<Rightarrow>
                        ([\<lparr>cm_role = js ''system'',
                           cm_content = focusedContext recentEventPlan\<rparr>,
                          \<lparr>cm_role = js ''user'', cm_content = cleanText\<rparr>], calls)
                    | None \<Rightarrow>
                        ([\<lparr>cm_role = js ''system'', cm_content = SLACK_SYSTEM_PROMPT pf\<rparr>,
                          \<lparr>cm_role = js ''user'', cm_content = cleanText @ noContextNote\<rparr>],
                         calls)))
         else (general, []))"

definition fallbackMessage :: "jsstring \<Rightarrow> jsstring" where
  "fallbackMessage errorMessage =
     (if includesStr errorMessage (js ''timeout'')
      then js ''I'' @ [39] @ js ''m experiencing some technical difficulties right now. ''
           @ js ''Please try your request again in a moment.''
      else js ''Sorry, I encountered an error processing your request: '' @ errorMessage
           @ js ''. Please try again!'')"

text \<open>
  The result of the mention handler: the calls made, the plan object it built (if the
  output was decoded as a plan) as it is when the handler returns, and what
  \<open>postEventPlan\<close> returned for it.
\<close>

record MentionResult =
  mr_calls :: "call list"
  mr_eventPlan :: "EventPlan option"
  mr_result :: "PostResult option"

definition mentionPlan :: "platform \<Rightarrow> jsstring option \<Rightarrow> EventFields \<Rightarrow> EventPlan" where
  "mentionPlan pf channel event =
     \<lparr>ep_id = (case ef_id event of None \<Rightarrow> randomUUID pf | Some i \<Rightarrow> i),
      ep_title = ef_title event, ep_date = ef_date event, ep_time = ef_time event,
      ep_guests = ef_guests event, ep_timeline = ef_timeline event,
      ep_budget = ef_budget event, ep_venue = ef_venue event,
      ep_description = ef_description event, ep_type = ef_type event,
      ep_status = draft,
      ep_slackChannelId = channel,
      ep_createdAt = toISOString pf 0,
      ep_updatedAt = toISOString pf 1\<rparr>"

definition handleSlackMention ::
  "platform \<Rightarrow> Env \<Rightarrow> jsstring \<Rightarrow> jsstring option \<Rightarrow> MentionResult" where
  "handleSlackMention pf env text channel =
     (let cleanText = trim (removeMentions text);
          token = SLACK_BOT_TOKEN env
      in case mentionMessages pf env cleanText channel of
           (messages, calls0) \<Rightarrow>
             let calls1 = calls0 @ [CallAi messages 1000];
                 apologise = (\<lambda>errorMessage.
                   \<lparr>mr_calls = calls1 @ snd (postMessage pf token
                        \<lparr>sm_channel = channel,
                         sm_text = AiText (fallbackMessage errorMessage),
                         sm_blocks = None\<rparr>),
                    mr_eventPlan = None, mr_result = None\<rparr>);
                 regular = (\<lambda>aiResponse plan.
                   \<lparr>mr_calls = calls1 @ snd (postMessage pf token
                        \<lparr>sm_channel = channel, sm_text = aiResponse, sm_blocks = None\<rparr>),
                    mr_eventPlan = plan, mr_result = None\<rparr>)
             in (case aiRun pf messages 1000 of
                   Rejected m \<Rightarrow> apologise m
                 | Slow r \<Rightarrow> apologise (js ''AI request timeout'')
                 | Resolved aiResponse \<Rightarrow>
                     (case planEvent (mentionDecode pf aiResponse) of
                        None \<Rightarrow> regular aiResponse None
                      | Some event \<Rightarrow>
                          let eventPlan = mentionPlan pf channel event
                          in (case postEventPlan pf token eventPlan of
                                (Inl e, calls) \<Rightarrow> regular aiResponse (Some eventPlan)
                              | (Inr result, calls) \<Rightarrow>
                                  \<lparr>mr_calls = calls1 @ calls,
                                   mr_eventPlan = Some eventPlan,
                                   mr_result = Some result\<rparr>))))"

text \<open>The request of the webhook: the body (\<open>None\<close> when reading it throws) and the
  two headers.\<close>

record WebhookRequest =
  wr_body :: "jsstring option"
  wr_timestamp :: "jsstring option"
  wr_signature :: "jsstring option"

record Response =
  rs_status :: nat
  rs_body :: jsstring

definition orEmpty :: "jsstring option \<Rightarrow> jsstring" where
  "orEmpty v = (if truthy v then template v else [])"

definition handleSlackWebhook ::
  "platform \<Rightarrow> Env \<Rightarrow> WebhookRequest \<Rightarrow> Response \<times> call list" where
  "handleSlackWebhook pf env request =
     (case wr_body request of
        None \<Rightarrow> (\<lparr>rs_status = 500, rs_body = js ''Error''\<rparr>, [])
      | Some body \<Rightarrow>
          if truthy (SLACK_SIGNING_SECRET env)
             \<and> \<not> verifySlackSignature (pf_crypto pf) (template (SLACK_SIGNING_SECRET env))
                   (orEmpty (wr_timestamp request)) body (orEmpty (wr_signature request))
          then (\<lparr>rs_status = 401, rs_body = js ''Invalid signature''\<rparr>, [])
          else (case parsePayload pf body of
                  None \<Rightarrow> (\<lparr>rs_status = 200, rs_body = js ''OK''\<rparr>, [])
                | Some payload \<Rightarrow>
                    if pl_type payload = Some (js ''url_verification'')
                    then (\<lparr>rs_status = 200,
                           rs_body = (case pl_challenge payload of None \<Rightarrow> [] | Some c \<Rightarrow> c)\<rparr>,
                          [])
                    else (case pl_event payload of
                            None \<Rightarrow> (\<lparr>rs_status = 200, rs_body = js ''OK''\<rparr>, [])
                          | Some event \<Rightarrow>
                              if pl_type payload = Some (js ''event_callback'')
                              then
                                (let calls1 =
                                       (if ev_type event = Some (js ''message'')
                                           \<and> \<not> truthy (ev_bot_id event)
                                           \<and> truthy (ev_text event)
                                        then handleSlackMessage pf env
                                               (template (ev_text event)) (ev_channel event)
                                        else []);
                                     calls2 =
                                       (if ev_type event = Some (js ''app_mention'')
                                           \<and> truthy (ev_text event)
                                        then mr_calls (handleSlackMention pf env
                                               (template (ev_text event)) (ev_channel event))
                                        else [])
                                 in (\<lparr>rs_status = 200, rs_body = js ''OK''\<rparr>, calls1 @ calls2))
                              else (\<lparr>rs_status = 200, rs_body = js ''OK''\<rparr>, []))))"

subsection \<open>The context builder, as specified\<close>





text \<open>
  The context builder as one function of the channel, \<open>findRecentPlan(channelId)\<close> of
  the specification: the two steps that \<open>handleSlackMention\<close> takes one after the
  other, the history of the channel and the scan of it.
\<close>

definition findRecentPlan :: "platform \<Rightarrow> jsstring option \<Rightarrow> jsstring \<Rightarrow> PartialPlan option" where
  "findRecentPlan pf channel token =
     findRecentEventPlan (fst (getRecentChannelMessages pf channel token))"

section \<open>Auxiliary predicates\<close>

text \<open>A line as the encoder writes it into the numbered list: not empty, on one line,
  with no white space at either end.\<close>

definition numberedLine :: "jsstring \<Rightarrow> bool" where
  "numberedLine l =
     (l \<noteq> [] \<and> newline \<notin> set l \<and> \<not> isWhiteSpace (hd l) \<and> \<not> isWhiteSpace (last l))"

section \<open>The round trip\<close>

text \<open>Encoding a plan with \<open>formatEventMessage\<close> and decoding the blocks of the
  message with \<open>extractEventFromBlocks\<close>.\<close>

definition encodeDecode :: "platform \<Rightarrow> EventPlan \<Rightarrow> PartialPlan option" where
  "encodeDecode pf plan =
     (case formatEventMessage pf plan of
        Inl e \<Rightarrow> None
      | Inr message \<Rightarrow>
          (case sm_blocks message of
             None \<Rightarrow> None
           | Some blocks \<Rightarrow> extractEventFromBlocks blocks))"

section \<open>Sample inputs\<close>

text \<open>Concrete inputs and a concrete platform, at which the theorems below are
  instantiated.\<close>

definition sampleCrypto :: crypto where
  "sampleCrypto = \<lparr>currentTime = 1700000000, hmacSha256 = (\<lambda>key message. [171, 18, 5])\<rparr>"

definition asciiLower :: "jsstring \<Rightarrow> jsstring" where
  "asciiLower s = map (\<lambda>c. if 65 \<le> c \<and> c \<le> 90 then c + 32 else c) s"

definition sampleEvent :: EventFields where
  "sampleEvent =
     \<lparr>ef_id = None, ef_title = Some (js ''Launch Party''), ef_date = Some (js ''2025-03-14''),
      ef_time = None, ef_guests = Some [], ef_timeline = Some [js ''Book venue'', js ''Send invites''],
      ef_budget = Some (Finite 1500 0), ef_venue = Some (js ''Town Hall''), ef_description = None,
      ef_type = None, ef_slackChannelId = None\<rparr>"

definition sampleParsed :: ParsedResponse where
  "sampleParsed =
     \<lparr>pr_action = Some (js ''create_event''), pr_event = Some sampleEvent,
      pr_response = Some (js ''Here is your plan'')\<rparr>"

text \<open>A string in double quotes.\<close>

definition quoted :: "string \<Rightarrow> jsstring" where
  "quoted s = [34] @ js s @ [34]"

text \<open>The JSON text of a plan, and the same text in a fenced block after a sentence.\<close>

definition sampleInner :: jsstring where
  "sampleInner =
     js ''{'' @ quoted ''action'' @ js '':'' @ quoted ''create_event'' @ js '',''
     @ quoted ''event'' @ js '':{'' @ quoted ''title'' @ js '':'' @ quoted ''Launch Party''
     @ js '','' @ quoted ''date'' @ js '':'' @ quoted ''2025-03-14''
     @ js '','' @ quoted ''guests'' @ js '':[],'' @ quoted ''timeline'' @ js '':[''
     @ quoted ''Book venue'' @ js '','' @ quoted ''Send invites'' @ js ''],''
     @ quoted ''budget'' @ js '':1500,'' @ quoted ''venue'' @ js '':'' @ quoted ''Town Hall''
     @ js ''},'' @ quoted ''response'' @ js '':'' @ quoted ''Here is your plan'' @ js ''}''"

definition sampleFenced :: jsstring where
  "sampleFenced =
     js ''Sure! Here is your plan:'' @ [newline] @ fence @ js ''json'' @ [newline]
     @ sampleInner @ [newline] @ fence"

text \<open>The prints of the sample platform: a whole number from 0 in groups of three
  digits, \<open>2 ^ 60\<close> as the runtime rounds it, and 2.5.\<close>

definition samplePrint :: "number \<Rightarrow> jsstring" where
  "samplePrint b =
     (if b = Finite 1 60 then js ''1,152,921,504,606,847,000''
      else if b = Finite 5 (- 1) then js ''2.5''
      else (case b of
              Finite m e \<Rightarrow> if e = 0 \<and> 0 \<le> m then groupThousands (nat m) else js ''NaN''
            | NegativeZero \<Rightarrow> js ''-0''
            | Infinity \<Rightarrow> [8734]
            | NegativeInfinity \<Rightarrow> js ''-'' @ [8734]
            | NaN \<Rightarrow> js ''NaN''))"

definition samplePlatform :: platform where
  "samplePlatform =
     \<lparr>pf_crypto = sampleCrypto,
      parsePayload = (\<lambda>body. None),
      parseModelOutput = (\<lambda>t. if t = sampleInner then Some sampleParsed else None),
      toLowerCase = asciiLower,
      toLongDate = (\<lambda>d. if d = Some (js ''2025-03-14'') then js ''Friday, March 14, 2025''
                          else js ''Invalid Date''),
      toLocaleString = samplePrint,
      todayShortDate = js ''3/1/2025'',
      toISOString = (\<lambda>n. js ''2025-03-01T09:00:00.000Z''),
      randomUUID = js ''6f1c'',
      aiRun = (\<lambda>messages max_tokens. Resolved (AiText sampleInner)),
      chatPostMessage = (\<lambda>token message. Some \<lparr>po_ok = True, po_error = None\<rparr>),
      conversationsHistory = (\<lambda>url token. None),
      SLACK_SYSTEM_PROMPT = js ''You are an expert AI event planning assistant.'',
      CHAT_SYSTEM_PROMPT = js ''You are an expert AI event planning assistant.''\<rparr>"

definition sampleEnv :: Env where
  "sampleEnv = \<lparr>SLACK_BOT_TOKEN = Some (js ''xoxb-1''), SLACK_SIGNING_SECRET = Some (js ''s3cret'')\<rparr>"

text \<open>The plan built from the sample event, with no channel yet.\<close>

definition samplePlan :: EventPlan where
  "samplePlan = mentionPlan samplePlatform None sampleEvent"


text \<open>The same plan with a budget of \<open>2 ^ 60\<close>.\<close>

definition bigPlan :: EventPlan where
  "bigPlan = samplePlan\<lparr>ep_budget := Some (Finite 1 60)\<rparr>"

definition sampleDiscard :: ApprovalRequest where
  "sampleDiscard =
     \<lparr>ar_eventPlan = Some samplePlan, ar_slackChannelId = Some (js ''C042''),
      ar_approved = False\<rparr>"

definition sampleApprove :: ApprovalRequest where
  "sampleApprove =
     \<lparr>ar_eventPlan = Some samplePlan, ar_slackChannelId = Some (js ''C042''),
      ar_approved = True\<rparr>"

text \<open>A platform whose delivery answers with an error.\<close>

definition failingPlatform :: platform where
  "failingPlatform =
     samplePlatform\<lparr>chatPostMessage :=
       (\<lambda>token message. Some \<lparr>po_ok = False, po_error = Some (js ''channel_not_found'')\<rparr>)\<rparr>"

text \<open>A bot's own message, delivered as an event, and the request carrying it with a
  valid signature.\<close>

definition botPayload :: Payload where
  "botPayload =
     \<lparr>pl_type = Some (js ''event_callback''), pl_challenge = None,
      pl_event = Some \<lparr>ev_type = Some (js ''message''), ev_bot_id = Some (js ''B01''),
                       ev_text = Some (js ''Event plan posted''),
                       ev_channel = Some (js ''C042'')\<rparr>\<rparr>"

definition botPlatform :: platform where
  "botPlatform = samplePlatform\<lparr>parsePayload := (\<lambda>body. Some botPayload)\<rparr>"

definition signedRequest :: WebhookRequest where
  "signedRequest =
     \<lparr>wr_body = Some (js ''{}''), wr_timestamp = Some (js ''1700000000''),
      wr_signature = Some (js ''v0=ab1205'')\<rparr>"

definition forgedRequest :: WebhookRequest where
  "forgedRequest =
     \<lparr>wr_body = Some (js ''{}''), wr_timestamp = Some (js ''1700000000''),
      wr_signature = Some (js ''v0=000000'')\<rparr>"

definition unreadableRequest :: WebhookRequest where
  "unreadableRequest =
     \<lparr>wr_body = None, wr_timestamp = Some (js ''1700000000''),
      wr_signature = Some (js ''v0=ab1205'')\<rparr>"








text \<open>A mention, and a platform whose model answers with the fenced text.\<close>

definition sampleMention :: jsstring where
  "sampleMention = js ''<@U0BOT7> plan a launch party''"

definition fencedPlatform :: platform where
  "fencedPlatform =
     samplePlatform\<lparr>aiRun := (\<lambda>messages max_tokens. Resolved (AiText sampleFenced))\<rparr>"

text \<open>The handshake of the platform.\<close>

definition handshakePayload :: Payload where
  "handshakePayload =
     \<lparr>pl_type = Some (js ''url_verification''), pl_challenge = Some (js ''abc123''),
      pl_event = None\<rparr>"

definition handshakePlatform :: platform where
  "handshakePlatform = samplePlatform\<lparr>parsePayload := (\<lambda>body. Some handshakePayload)\<rparr>"

text \<open>A platform whose model answers in plain prose.\<close>

definition prosePlatform :: platform where
  "prosePlatform =
     samplePlatform\<lparr>aiRun := (\<lambda>messages max_tokens.
       Resolved (AiText (js ''When is the party?'')))\<rparr>"



section \<open>Evaluation\<close>

lemmas eval_str = js_def trimStart_def trimEnd_def trim_def isWhiteSpace_def newline_def
  padStart_def digitChar_def showNat_def isRadixDigit_def digitValue_def digitsValue_def
  toStringRadix.simps groupThousands.simps

lemma parseInt_abc: "parseInt (js ''abc'') = None"
  by (simp add: parseInt_def eval_str)

lemma sample_signature:
  "computedSignature sampleCrypto (js ''s3cret'') (js ''abc'') (js ''{}'') = js ''v0=ab1205''"
  by (simp add: computedSignature_def sampleCrypto_def hexByte_def eval_str)

section \<open>Strings and numbers\<close>

lemma split_append: "sep \<notin> set a \<Longrightarrow> split sep (a @ sep # b) = a # split sep b"
  by (induction a) (auto split: list.splits)

lemma split_first: "\<exists>ls. split sep b = takeWhile (\<lambda>c. c \<noteq> sep) b # ls"
  by (induction b) (auto split: list.splits)

lemma split_none: "sep \<notin> set l \<Longrightarrow> split sep l = [l]"
  by (induction l) (auto split: list.splits)

lemma split_join:
  "ls \<noteq> [] \<Longrightarrow> \<forall>l \<in> set ls. sep \<notin> set l \<Longrightarrow> split sep (join [sep] ls) = ls"
proof (induction ls)
  case Nil
  then show ?case by simp
next
  case (Cons x xs)
  show ?case
  proof (cases xs)
    case Nil
    with Cons.prems show ?thesis by (simp add: split_none)
  next
    case (Cons y ys)
    with Cons.IH Cons.prems show ?thesis by (simp add: split_append)
  qed
qed

lemma secondLine_label:
  assumes "newline \<notin> set a"
  shows "secondLine (a @ [newline] @ b) = Some (trim (takeWhile (\<lambda>c. c \<noteq> newline) b))"
proof -
  obtain ls where "split newline b = takeWhile (\<lambda>c. c \<noteq> newline) b # ls"
    using split_first by blast
  then show ?thesis using assms by (simp add: secondLine_def split_append)
qed

lemma includesStr_notin: "c \<notin> set s \<Longrightarrow> \<not> includesStr s (c # rest)"
  by (induction s) auto

lemma removeGlyph_id: "\<not> includesStr s glyph \<Longrightarrow> removeGlyph s = s"
  by (induction s) auto

lemma trim_id:
  assumes "s \<noteq> []" and "\<not> isWhiteSpace (hd s)" and "\<not> isWhiteSpace (last s)"
  shows "trim s = s"
proof -
  from assms have a: "dropWhile isWhiteSpace s = s" by (cases s) auto
  from assms have "dropWhile isWhiteSpace (rev s) = rev s"
    by (cases "rev s") (auto simp: last_rev hd_rev)
  with a show ?thesis by (simp add: trim_def trimStart_def trimEnd_def)
qed


lemma toStringRadix_step:
  "2 \<le> r \<Longrightarrow> r \<le> n \<Longrightarrow> toStringRadix r n = toStringRadix r (n div r) @ [digitChar (n mod r)]"
  by (subst toStringRadix.simps) simp

lemma toStringRadix_small: "n < r \<Longrightarrow> toStringRadix r n = [digitChar n]"
  by (subst toStringRadix.simps) simp

lemma showNat_step: "10 \<le> n \<Longrightarrow> showNat n = showNat (n div 10) @ [digitChar (n mod 10)]"
  unfolding showNat_def by (rule toStringRadix_step) simp_all

lemma showNat_small: "n < 10 \<Longrightarrow> showNat n = [digitChar n]"
  unfolding showNat_def by (rule toStringRadix_small)

lemma showNat_nonempty: "showNat n \<noteq> []"
  by (cases "n < 10") (simp_all add: showNat_small showNat_step)


lemma digitChar_digit: "d < 10 \<Longrightarrow> digitChar d \<in> {48..57}"
  by (simp add: digitChar_def)

lemma showNat_digits: "set (showNat n) \<subseteq> {48..57}"
proof (induction n rule: less_induct)
  case (less n)
  show ?case
  proof (cases "n < 10")
    case True
    then show ?thesis using digitChar_digit [of n] by (simp add: showNat_small)
  next
    case False
    then have lt: "n div 10 < n" by simp
    have "showNat n = showNat (n div 10) @ [digitChar (n mod 10)]"
      using False by (intro showNat_step) simp
    moreover have "digitChar (n mod 10) \<in> {48..57}" by (rule digitChar_digit) simp
    ultimately show ?thesis using less.IH [OF lt] by simp
  qed
qed

lemma digitChar_0: "digitChar 0 = 48"
  by (simp add: digitChar_def)

lemma pad3:
  assumes "m < 1000"
  shows "padStart 3 48 (showNat m)
         = [digitChar (m div 100), digitChar (m div 10 mod 10), digitChar (m mod 10)]"
proof -
  consider "m < 10" | "10 \<le> m" "m < 100" | "100 \<le> m" by linarith
  then show ?thesis
  proof cases
    case 1
    then have "showNat m = [digitChar m]" by (rule showNat_small)
    with 1 show ?thesis by (simp add: padStart_def digitChar_0 numeral_2_eq_2)
  next
    case 2
    then have "showNat m = showNat (m div 10) @ [digitChar (m mod 10)]"
      by (intro showNat_step)
    moreover from 2 have "showNat (m div 10) = [digitChar (m div 10)]"
      by (intro showNat_small) simp
    ultimately show ?thesis using 2 by (simp add: padStart_def digitChar_0)
  next
    case 3
    then have a: "showNat m = showNat (m div 10) @ [digitChar (m mod 10)]"
      by (intro showNat_step) simp
    from 3 have b: "showNat (m div 10) = showNat (m div 10 div 10) @ [digitChar (m div 10 mod 10)]"
      by (intro showNat_step) simp
    from assms have c: "showNat (m div 10 div 10) = [digitChar (m div 10 div 10)]"
      by (intro showNat_small) simp
    have d: "m div 10 div 10 = m div 100" by (simp add: div_mult2_eq [symmetric])
    show ?thesis using a b c d by (simp add: padStart_def)
  qed
qed

lemma showNat_thousands:
  assumes "1000 \<le> n"
  shows "showNat n = showNat (n div 1000) @ padStart 3 48 (showNat (n mod 1000))"
proof -
  have a: "showNat n = showNat (n div 10) @ [digitChar (n mod 10)]"
    using assms by (intro showNat_step) simp
  have b: "showNat (n div 10) = showNat (n div 10 div 10) @ [digitChar (n div 10 mod 10)]"
    using assms by (intro showNat_step) simp
  have c: "showNat (n div 10 div 10)
           = showNat (n div 10 div 10 div 10) @ [digitChar (n div 10 div 10 mod 10)]"
    using assms by (intro showNat_step) simp
  have d: "n div 10 div 10 div 10 = n div 1000" "n div 10 div 10 = n div 100"
    by (simp_all add: div_mult2_eq [symmetric])
  have e1: "n mod 1000 div 100 = n div 100 mod 10"
  proof -
    have "n mod 1000 = 100 * (n div 100 mod 10) + n mod 100"
      using mod_mult2_eq [of n 100 10] by simp
    then show ?thesis by simp
  qed
  have e2: "n mod 1000 div 10 mod 10 = n div 10 mod 10"
  proof -
    have "n mod 1000 = 10 * (n div 10 mod 100) + n mod 10"
      using mod_mult2_eq [of n 10 100] by simp
    then have "n mod 1000 div 10 = n div 10 mod 100" by simp
    then show ?thesis by (simp add: mod_mod_cancel)
  qed
  have e3: "n mod 1000 mod 10 = n mod 10"
    by (simp add: mod_mod_cancel)
  have "n mod 1000 < 1000" by simp
  from pad3 [OF this] have p: "padStart 3 48 (showNat (n mod 1000))
       = [digitChar (n div 100 mod 10), digitChar (n div 10 mod 10), digitChar (n mod 10)]"
    by (simp only: e1 e2 e3)
  show ?thesis unfolding p using a b c d by simp
qed


lemma stripCurrency_digits: "set s \<subseteq> {48..57} \<Longrightarrow> stripCurrency s = s"
  by (induction s) (auto simp: stripCurrency_def)

lemma padStart_digits: "set s \<subseteq> {48..57} \<Longrightarrow> set (padStart 3 48 s) \<subseteq> {48..57}"
  by (auto simp: padStart_def)

lemma stripCurrency_append: "stripCurrency (a @ b) = stripCurrency a @ stripCurrency b"
  by (simp add: stripCurrency_def)

lemma stripCurrency_groupThousands: "stripCurrency (groupThousands n) = showNat n"
proof (induction n rule: less_induct)
  case (less n)
  show ?case
  proof (cases "n < 1000")
    case True
    then have "groupThousands n = showNat n" by (subst groupThousands.simps) simp
    then show ?thesis by (simp add: stripCurrency_digits showNat_digits)
  next
    case False
    then have lt: "n div 1000 < n" by simp
    have u: "groupThousands n
             = groupThousands (n div 1000) @ js '','' @ padStart 3 48 (showNat (n mod 1000))"
      using False by (subst groupThousands.simps) simp
    have p: "stripCurrency (padStart 3 48 (showNat (n mod 1000)))
             = padStart 3 48 (showNat (n mod 1000))"
      by (intro stripCurrency_digits padStart_digits showNat_digits)
    have c: "stripCurrency (js '','') = []" by (simp add: stripCurrency_def js_def)
    have t: "showNat n = showNat (n div 1000) @ padStart 3 48 (showNat (n mod 1000))"
      using False by (intro showNat_thousands) simp
    show ?thesis
      unfolding u t stripCurrency_append using less.IH [OF lt] p c by simp
  qed
qed

lemma groupThousands_chars: "set (groupThousands n) \<subseteq> {48..57} \<union> {44}"
proof (induction n rule: less_induct)
  case (less n)
  show ?case
  proof (cases "n < 1000")
    case True
    then have "groupThousands n = showNat n" by (subst groupThousands.simps) simp
    then show ?thesis using showNat_digits [of n] by auto
  next
    case False
    then have lt: "n div 1000 < n" by simp
    have u: "groupThousands n
             = groupThousands (n div 1000) @ js '','' @ padStart 3 48 (showNat (n mod 1000))"
      using False by (subst groupThousands.simps) simp
    have c: "set (js '','') = {44}" by (simp add: js_def)
    show ?thesis
      unfolding u using less.IH [OF lt] padStart_digits [OF showNat_digits, of "n mod 1000"] c
      by auto
  qed
qed


lemma not_ws_digit: "c \<in> {48..57} \<union> {44, 45, 46} \<union> {36} \<Longrightarrow> \<not> isWhiteSpace c"
  by (auto simp: isWhiteSpace_def)

lemma groupThousands_nonempty: "groupThousands n \<noteq> []"
proof (cases "n < 1000")
  case True
  then have "groupThousands n = showNat n" by (subst groupThousands.simps) simp
  then show ?thesis by (simp add: showNat_nonempty)
next
  case False
  then have "groupThousands n
             = groupThousands (n div 1000) @ js '','' @ padStart 3 48 (showNat (n mod 1000))"
    by (subst groupThousands.simps) simp
  then show ?thesis by (simp add: js_def)
qed

lemma field_date:
  "extractField p (mrkdwn (js ''*Date:*'' @ [newline] @ d))
   = p\<lparr>pp_date := Some (Some (trim (takeWhile (\<lambda>c. c \<noteq> newline) d)))\<rparr>"
proof -
  let ?text = "js ''*Date:*'' @ [newline] @ d"
  have ne: "?text \<noteq> []" by (simp add: js_def)
  have inc: "includesStr ?text (js ''Date:'')" by (simp add: js_def)
  have sl: "secondLine ?text = Some (trim (takeWhile (\<lambda>c. c \<noteq> newline) d))"
    by (rule secondLine_label) (simp add: js_def newline_def)
  show ?thesis
    using ne inc sl by (simp add: extractField_def mrkdwn_def truthy_def template_def Let_def)
qed

lemma field_guests:
  "extractField p (mrkdwn (js ''*Expected Guests:*'' @ [newline] @ js ''TBD'')) = p"
  by (simp add: extractField_def mrkdwn_def truthy_def template_def Let_def js_def)

lemma field_budget:
  assumes "set printed \<subseteq> {48..57} \<union> {44, 45, 46}"
  shows "extractField p (mrkdwn (js ''*Budget:*'' @ [newline] @ js ''$'' @ printed))
         = p\<lparr>pp_budget := Some (Some (stripCurrency printed))\<rparr>"
proof -
  let ?money = "js ''$'' @ printed"
  let ?text = "js ''*Budget:*'' @ [newline] @ ?money"
  have ne: "?text \<noteq> []" by (simp add: js_def)
  have "68 \<notin> set printed" using assms by auto
  then have nodate: "\<not> includesStr ?text (js ''Date:'')"
    by (simp add: js_def newline_def includesStr_notin)
  have inc: "includesStr ?text (js ''Budget:'')" by (simp add: js_def)
  have nonl: "newline \<notin> set ?money" using assms by (auto simp: js_def newline_def)
  then have tw: "takeWhile (\<lambda>c. c \<noteq> newline) ?money = ?money"
    by (intro takeWhile_eq_all_conv [THEN iffD2]) auto
  have "last ?money \<in> {48..57} \<union> {44, 45, 46} \<union> {36}"
  proof (cases "printed = []")
    case True
    then show ?thesis by (simp add: js_def)
  next
    case False
    then have "last ?money \<in> set printed" by simp
    with assms show ?thesis by blast
  qed
  then have "\<not> isWhiteSpace (last ?money)" by (rule not_ws_digit)
  moreover have "\<not> isWhiteSpace (hd ?money)" by (simp add: js_def isWhiteSpace_def)
  moreover have "?money \<noteq> []" by (simp add: js_def)
  ultimately have tr: "trim ?money = ?money" by (intro trim_id)
  have nl: "newline \<notin> set (js ''*Budget:*'')" by (simp add: js_def newline_def)
  have sl: "secondLine ?text = Some ?money"
    using secondLine_label [OF nl, of ?money] by (simp only: tw tr)
  have sc: "stripCurrency ?money = stripCurrency printed"
    by (simp add: stripCurrency_def js_def)
  show ?thesis
    using ne nodate inc sl sc
    by (simp add: extractField_def mrkdwn_def truthy_def template_def Let_def)
qed

lemma field_venue:
  assumes "venue \<noteq> []" and "trim venue = venue" and "newline \<notin> set venue"
    and "\<not> includesStr venue (js ''Date:'')" and "\<not> includesStr venue (js ''Budget:'')"
  shows "extractField p (mrkdwn (js ''*Venue:*'' @ [newline] @ venue))
         = p\<lparr>pp_venue := Some (Some venue)\<rparr>"
proof -
  let ?text = "js ''*Venue:*'' @ [newline] @ venue"
  have ne: "?text \<noteq> []" by (simp add: js_def)
  have nodate: "\<not> includesStr ?text (js ''Date:'')"
    using assms(4) by (simp add: js_def newline_def)
  have nobudget: "\<not> includesStr ?text (js ''Budget:'')"
    using assms(5) by (simp add: js_def newline_def)
  have inc: "includesStr ?text (js ''Venue:'')" by (simp add: js_def)
  have tw: "takeWhile (\<lambda>c. c \<noteq> newline) venue = venue"
    using assms(3) by (intro takeWhile_eq_all_conv [THEN iffD2]) auto
  have nl: "newline \<notin> set (js ''*Venue:*'')" by (simp add: js_def newline_def)
  have sl: "secondLine ?text = Some venue"
    using secondLine_label [OF nl, of venue] by (simp only: tw assms(2))
  show ?thesis
    using ne nodate nobudget inc sl
    by (simp add: extractField_def mrkdwn_def truthy_def template_def Let_def)
qed


lemma newline_ws: "isWhiteSpace newline"
  by (simp add: isWhiteSpace_def newline_def)

lemma digit_not_ws: "c \<in> {48..57} \<Longrightarrow> \<not> isWhiteSpace c"
  by (auto simp: isWhiteSpace_def)

lemma removeTimelineLabel_label:
  assumes "rest \<noteq> []" and "\<not> isWhiteSpace (hd rest)"
  shows "removeTimelineLabel (js ''*Timeline:*'' @ newline # rest) = rest"
proof -
  obtain r rs where r: "rest = r # rs" using assms(1) by (cases rest) auto
  with assms(2) have nws: "\<not> isWhiteSpace r" by simp
  have ws: "isWhiteSpace 10" using newline_ws by (simp add: newline_def)
  show ?thesis
    unfolding r using nws ws
    by (simp add: js_def newline_def Let_def afterLastNewline_def)
qed

lemma numbered_lines:
  assumes "\<forall>item \<in> set items. item \<noteq> [] \<and> newline \<notin> set item \<and> \<not> isWhiteSpace (last item)"
  shows "\<forall>l \<in> set (numbered i items). numberedLine l"
  using assms
proof (induction items arbitrary: i)
  case Nil
  then show ?case by simp
next
  case (Cons item items)
  let ?n = "showNat (i + 1)"
  have d: "set ?n \<subseteq> {48..57}" by (rule showNat_digits)
  have ne: "?n \<noteq> []" by (rule showNat_nonempty)
  then have "hd ?n \<in> set ?n" by simp
  with d have h: "\<not> isWhiteSpace (hd ?n)" using digit_not_ws by blast
  have nl: "newline \<notin> set ?n" using d by (auto simp: newline_def)
  from Cons.prems have it: "item \<noteq> []" "newline \<notin> set item" "\<not> isWhiteSpace (last item)"
    by simp_all
  have "numberedLine (?n @ js ''. '' @ item)"
    using ne h nl it by (simp add: numberedLine_def js_def newline_def)
  moreover have "\<forall>l \<in> set (numbered (i + 1) items). numberedLine l"
    using Cons.prems by (intro Cons.IH) simp
  ultimately show ?case by simp
qed

lemma numbered_nonempty: "items \<noteq> [] \<Longrightarrow> numbered i items \<noteq> []"
  by (cases items) simp_all

lemma join_hd: "ls \<noteq> [] \<Longrightarrow> hd ls \<noteq> [] \<Longrightarrow> join sep ls \<noteq> [] \<and> hd (join sep ls) = hd (hd ls)"
  by (induction sep ls rule: join.induct) auto

lemma trim_lines:
  assumes "\<forall>l \<in> set ls. numberedLine l"
  shows "filter (\<lambda>line. length line > 0) (map trim ls) = ls"
  using assms
proof (induction ls)
  case Nil
  then show ?case by simp
next
  case (Cons l ls)
  then have "numberedLine l" by simp
  then have "trim l = l" "l \<noteq> []" by (simp_all add: numberedLine_def trim_id)
  with Cons show ?case by simp
qed

lemma timelineLines_numbered:
  assumes "items \<noteq> []"
    and "\<forall>item \<in> set items. item \<noteq> [] \<and> newline \<notin> set item \<and> \<not> isWhiteSpace (last item)"
  shows "timelineLines (js ''*Timeline:*'' @ newline # join [newline] (numbered 0 items))
         = numbered 0 items"
proof -
  let ?ls = "numbered 0 items"
  have lines: "\<forall>l \<in> set ?ls. numberedLine l" using assms(2) by (rule numbered_lines)
  have ne: "?ls \<noteq> []" using assms(1) by (rule numbered_nonempty)
  then have "hd ?ls \<in> set ?ls" by simp
  with lines have h: "hd ?ls \<noteq> []" "\<not> isWhiteSpace (hd (hd ?ls))"
    by (auto simp: numberedLine_def)
  with ne have j: "join [newline] ?ls \<noteq> []" "hd (join [newline] ?ls) = hd (hd ?ls)"
    using join_hd [of ?ls "[newline]"] by simp_all
  have rm: "removeTimelineLabel (js ''*Timeline:*'' @ newline # join [newline] ?ls)
            = join [newline] ?ls"
    using j h by (intro removeTimelineLabel_label) simp_all
  have sp: "split newline (join [newline] ?ls) = ?ls"
    using ne lines by (intro split_join) (auto simp: numberedLine_def)
  show ?thesis
    unfolding timelineLines_def rm sp using lines by (rule trim_lines)
qed

lemma section_timeline:
  assumes "items \<noteq> []"
    and "\<forall>item \<in> set items. item \<noteq> [] \<and> newline \<notin> set item \<and> \<not> isWhiteSpace (last item)"
  shows "extractSection p
           (sectionText (js ''*Timeline:*'' @ newline # join [newline] (numbered 0 items)))
         = p\<lparr>pp_timeline := Some (numbered 0 items)\<rparr>"
proof -
  let ?text = "js ''*Timeline:*'' @ newline # join [newline] (numbered 0 items)"
  have ne: "?text \<noteq> []" by simp
  have inc: "includesStr ?text (js ''Timeline:'')" by (simp add: js_def)
  show ?thesis
    using ne inc timelineLines_numbered [OF assms]
    by (simp add: extractSection_def sectionText_def mrkdwn_def blockText_def truthy_def
        template_def Let_def)
qed

section \<open>The signature verifier\<close>

text \<open>
  Claim C3. \<open>verify\<close> is to return true only when the time stamp is at most 300 seconds
  from the clock and the signature is the expected one. The time stamp \<open>abc\<close> is no
  number, so it is not within 300 seconds of any clock; the code accepts it with the
  signature computed over it, whatever the clock says.
\<close>

theorem verify_accepts_unparsable_timestamp:
  "verifySlackSignature cr secret (js ''abc'') body
     (computedSignature cr secret (js ''abc'') body)"
  by (simp add: verifySlackSignature_def tooOld_def parseInt_abc)

theorem verify_accepts_unparsable_timestamp_witness:
  "verifySlackSignature sampleCrypto (js ''s3cret'') (js ''abc'') (js ''{}'') (js ''v0=ab1205'')"
  using verify_accepts_unparsable_timestamp [of sampleCrypto "js ''s3cret''" "js ''{}''"]
    sample_signature
  by simp

text \<open>
  Claim C10. When the time stamp does not parse to a number, the staleness check does
  not reject, and the result of the verification is the comparison of the signatures
  alone.
\<close>

theorem verify_unparsable_timestamp:
  assumes "parseInt timestamp = None"
  shows "\<not> tooOld (currentTime cr) (parseInt timestamp)
       \<and> verifySlackSignature cr secret timestamp body signature
         = (computedSignature cr secret timestamp body = signature)"
  using assms by (simp add: verifySlackSignature_def tooOld_def)

theorem verify_unparsable_timestamp_witness:
  "parseInt (js ''abc'') = None
   \<and> \<not> tooOld (currentTime sampleCrypto) (parseInt (js ''abc''))
   \<and> verifySlackSignature sampleCrypto (js ''s3cret'') (js ''abc'') (js ''{}'')
       (js ''v0=ab1205'')"
proof -
  from verify_unparsable_timestamp [OF parseInt_abc, of sampleCrypto "js ''s3cret''"
      "js ''{}''" "js ''v0=ab1205''"]
  show ?thesis using parseInt_abc sample_signature by simp
qed

text \<open>
  When the time stamp parses to a number, the verification is true exactly when the
  time stamp is at most 300 seconds from the clock and the signature is the expected
  one: a stale time stamp is rejected even with the right signature.
\<close>

theorem verify_parsed_timestamp:
  assumes "parseInt timestamp = Some t"
  shows "verifySlackSignature cr secret timestamp body signature
         = (abs (currentTime cr - t) \<le> 300
            \<and> computedSignature cr secret timestamp body = signature)"
  using assms by (auto simp: verifySlackSignature_def tooOld_def)

lemma parseInt_stale: "parseInt (js ''1699999000'') = Some 1699999000"
  by (simp add: parseInt_def eval_str)

theorem verify_parsed_timestamp_witness:
  "parseInt (js ''1699999000'') = Some 1699999000
   \<and> \<not> verifySlackSignature sampleCrypto (js ''s3cret'') (js ''1699999000'') (js ''{}'')
         (computedSignature sampleCrypto (js ''s3cret'') (js ''1699999000'') (js ''{}''))"
  using verify_parsed_timestamp [OF parseInt_stale, of sampleCrypto "js ''s3cret''" "js ''{}''"
      "computedSignature sampleCrypto (js ''s3cret'') (js ''1699999000'') (js ''{}'')"]
    parseInt_stale
  by (simp add: sampleCrypto_def)

section \<open>The approval handler\<close>

text \<open>
  Claim C7. A request that is not approved gets the discard acknowledgment; the plan of
  the request is left as it came, and no call is made (so none to the delivery).
\<close>

theorem approval_discard:
  assumes "\<not> ar_approved req"
  shows "handleEventApproval pf env (Some req)
         = \<lparr>res_response =
              \<lparr>ap_status = 200, ap_success = Some True,
               ap_message = Some (js ''Event plan discarded''), ap_error = None,
               ap_eventPlan = None\<rparr>,
            res_plan = ar_eventPlan req, res_calls = []\<rparr>"
  using assms by (simp add: handleEventApproval_def)

theorem approval_discard_witness:
  "\<not> ar_approved sampleDiscard
   \<and> res_plan (handleEventApproval samplePlatform sampleEnv (Some sampleDiscard))
       = Some samplePlan
   \<and> res_calls (handleEventApproval samplePlatform sampleEnv (Some sampleDiscard)) = []
   \<and> ap_message (res_response
         (handleEventApproval samplePlatform sampleEnv (Some sampleDiscard)))
       = Some (js ''Event plan discarded'')"
proof -
  have n: "\<not> ar_approved sampleDiscard" by (simp add: sampleDiscard_def)
  from approval_discard [OF n, of samplePlatform sampleEnv]
  show ?thesis using n by (simp add: sampleDiscard_def)
qed

text \<open>
  Claim C6. An approved request with a channel and a bot token, whose delivery call
  returns a failure: the plan of the response has status \<open>approved\<close>, the response
  carries the error of the delivery, the plan is kept, and the delivery was called
  once.
\<close>

theorem approval_delivery_failure:
  assumes approved: "ar_approved req"
    and channel: "truthy (ar_slackChannelId req)"
    and token: "truthy (SLACK_BOT_TOKEN env)"
    and plan: "ar_eventPlan req = Some plan"
    and formatted: "formatEventMessage pf
        (plan\<lparr>ep_status := approved, ep_updatedAt := toISOString pf 0,
              ep_slackChannelId := ar_slackChannelId req\<rparr>) = Inr message"
    and failure: "\<not> po_ok (fst (postMessage pf (SLACK_BOT_TOKEN env) message))"
  shows "handleEventApproval pf env (Some req)
         = \<lparr>res_response =
              \<lparr>ap_status = 400, ap_success = Some False, ap_message = None,
               ap_error = Some (js ''Failed to post to Slack: ''
                   @ template (po_error (fst (postMessage pf (SLACK_BOT_TOKEN env) message)))),
               ap_eventPlan = Some (plan\<lparr>ep_status := approved,
                   ep_updatedAt := toISOString pf 0,
                   ep_slackChannelId := ar_slackChannelId req\<rparr>)\<rparr>,
            res_plan = Some (plan\<lparr>ep_status := approved, ep_updatedAt := toISOString pf 0,
                   ep_slackChannelId := ar_slackChannelId req\<rparr>),
            res_calls = [CallPostMessage (SLACK_BOT_TOKEN env) message]\<rparr>"
  using assms
  by (simp add: handleEventApproval_def postEventPlan_def postMessage_def Let_def
      split: option.splits)

theorem approval_delivery_failure_witness:
  "ar_approved sampleApprove
   \<and> truthy (ar_slackChannelId sampleApprove) \<and> truthy (SLACK_BOT_TOKEN sampleEnv)
   \<and> map_option ep_status (ap_eventPlan (res_response
         (handleEventApproval failingPlatform sampleEnv (Some sampleApprove)))) = Some approved
   \<and> ap_error (res_response (handleEventApproval failingPlatform sampleEnv (Some sampleApprove)))
       = Some (js ''Failed to post to Slack: channel_not_found'')
   \<and> length (res_calls (handleEventApproval failingPlatform sampleEnv (Some sampleApprove))) = 1"
proof -
  obtain m where m: "formatEventMessage failingPlatform
        (samplePlan\<lparr>ep_status := approved, ep_updatedAt := toISOString failingPlatform 0,
              ep_slackChannelId := ar_slackChannelId sampleApprove\<rparr>) = Inr m"
    by (simp add: formatEventMessage_def samplePlan_def mentionPlan_def sampleEvent_def
        sampleApprove_def Let_def)
  have a: "ar_approved sampleApprove" by (simp add: sampleApprove_def)
  have c: "truthy (ar_slackChannelId sampleApprove)"
    by (simp add: sampleApprove_def truthy_def js_def)
  have t: "truthy (SLACK_BOT_TOKEN sampleEnv)" by (simp add: sampleEnv_def truthy_def js_def)
  have p: "ar_eventPlan sampleApprove = Some samplePlan" by (simp add: sampleApprove_def)
  have f: "\<not> po_ok (fst (postMessage failingPlatform (SLACK_BOT_TOKEN sampleEnv) m))"
    by (simp add: postMessage_def failingPlatform_def)
  have e: "po_error (fst (postMessage failingPlatform (SLACK_BOT_TOKEN sampleEnv) m))
           = Some (js ''channel_not_found'')"
    by (simp add: postMessage_def failingPlatform_def)
  from approval_delivery_failure [OF a c t p m f]
  show ?thesis using a c t e by (simp add: template_def js_def)
qed

lemma sample_verify:
  "verifySlackSignature sampleCrypto (js ''s3cret'') (js ''1700000000'') (js ''{}'') (js ''v0=ab1205'')"
  by (simp add: verifySlackSignature_def tooOld_def parseInt_def computedSignature_def
      sampleCrypto_def hexByte_def eval_str)

lemma sample_verify_forged:
  "\<not> verifySlackSignature sampleCrypto (js ''s3cret'') (js ''1700000000'') (js ''{}'') (js ''v0=000000'')"
  by (simp add: verifySlackSignature_def tooOld_def parseInt_def computedSignature_def
      sampleCrypto_def hexByte_def eval_str)

section \<open>The webhook\<close>

text \<open>
  Claim C9. A webhook whose payload is a \<open>message\<close> event with a bot id (a non-empty
  id, which is what the guard of the handler tests) makes no call at all: no inference
  call, and no call to Slack either.
\<close>

theorem bot_message_not_forwarded:
  assumes "wr_body request = Some body"
    and "parsePayload pf body = Some payload"
    and "pl_event payload = Some event"
    and "ev_type event = Some (js ''message'')"
    and "truthy (ev_bot_id event)"
  shows "snd (handleSlackWebhook pf env request) = []"
  using assms by (simp add: handleSlackWebhook_def js_def)

theorem bot_message_not_forwarded_witness:
  "truthy (Some (js ''B01''))
   \<and> fst (handleSlackWebhook botPlatform sampleEnv signedRequest)
       = \<lparr>rs_status = 200, rs_body = js ''OK''\<rparr>
   \<and> snd (handleSlackWebhook botPlatform sampleEnv signedRequest) = []"
proof -
  have b: "wr_body signedRequest = Some (js ''{}'')" by (simp add: signedRequest_def)
  have p: "parsePayload botPlatform (js ''{}'') = Some botPayload"
    by (simp add: botPlatform_def)
  have e: "pl_event botPayload = Some \<lparr>ev_type = Some (js ''message''), ev_bot_id = Some (js ''B01''),
                       ev_text = Some (js ''Event plan posted''),
                       ev_channel = Some (js ''C042'')\<rparr>"
    by (simp add: botPayload_def)
  have t: "truthy (Some (js ''B01''))" by (simp add: truthy_def js_def)
  have r: "fst (handleSlackWebhook botPlatform sampleEnv signedRequest)
       = \<lparr>rs_status = 200, rs_body = js ''OK''\<rparr>"
    using sample_verify
    by (simp add: handleSlackWebhook_def signedRequest_def botPlatform_def botPayload_def
        sampleEnv_def samplePlatform_def orEmpty_def truthy_def template_def js_def)
  from bot_message_not_forwarded [OF b p e, of sampleEnv]
  show ?thesis using t r by simp
qed

text \<open>
  Claim C5, as amended. The status of the response is 500 when reading the body of the
  request throws, 401 when a signing secret is configured and the verification of the
  signature fails, and 200 in every other case: whatever the payload is, whether it
  parses, and however the handling of the event ends.
\<close>

theorem webhook_status:
  "rs_status (fst (handleSlackWebhook pf env request))
   = (case wr_body request of
        None \<Rightarrow> 500
      | Some body \<Rightarrow>
          if truthy (SLACK_SIGNING_SECRET env)
             \<and> \<not> verifySlackSignature (pf_crypto pf) (template (SLACK_SIGNING_SECRET env))
                   (orEmpty (wr_timestamp request)) body (orEmpty (wr_signature request))
          then 401 else 200)"
  by (simp add: handleSlackWebhook_def Let_def split: option.splits)

text \<open>Claim C5 as stated fails: a request whose body cannot be read is answered with
  500, which is neither 200 nor 401.\<close>

theorem webhook_status_500:
  "rs_status (fst (handleSlackWebhook samplePlatform sampleEnv unreadableRequest)) = 500"
  by (simp add: handleSlackWebhook_def unreadableRequest_def)

theorem webhook_status_witness:
  "rs_status (fst (handleSlackWebhook botPlatform sampleEnv signedRequest)) = 200
   \<and> rs_status (fst (handleSlackWebhook botPlatform sampleEnv forgedRequest)) = 401"
proof -
  have s: "truthy (SLACK_SIGNING_SECRET sampleEnv)" by (simp add: sampleEnv_def truthy_def js_def)
  have v1: "verifySlackSignature (pf_crypto botPlatform) (template (SLACK_SIGNING_SECRET sampleEnv))
     (orEmpty (wr_timestamp signedRequest)) (js ''{}'') (orEmpty (wr_signature signedRequest))"
    using sample_verify
    by (simp add: botPlatform_def samplePlatform_def sampleEnv_def signedRequest_def
        orEmpty_def truthy_def template_def js_def)
  have v2: "\<not> verifySlackSignature (pf_crypto botPlatform) (template (SLACK_SIGNING_SECRET sampleEnv))
     (orEmpty (wr_timestamp forgedRequest)) (js ''{}'') (orEmpty (wr_signature forgedRequest))"
    using sample_verify_forged
    by (simp add: botPlatform_def samplePlatform_def sampleEnv_def forgedRequest_def
        orEmpty_def truthy_def template_def js_def)
  from webhook_status [of botPlatform sampleEnv signedRequest]
    webhook_status [of botPlatform sampleEnv forgedRequest]
  show ?thesis using s v1 v2 by (simp add: signedRequest_def forgedRequest_def)
qed

text \<open>
  The handshake: a payload of type \<open>url_verification\<close>, in a request that passes the
  verification (or with no signing secret), is answered with its challenge as the body,
  and no call is made.
\<close>

theorem handshake_echo:
  assumes "wr_body request = Some body"
    and "\<not> truthy (SLACK_SIGNING_SECRET env)
         \<or> verifySlackSignature (pf_crypto pf) (template (SLACK_SIGNING_SECRET env))
              (orEmpty (wr_timestamp request)) body (orEmpty (wr_signature request))"
    and "parsePayload pf body = Some payload"
    and "pl_type payload = Some (js ''url_verification'')"
    and "pl_challenge payload = Some challenge"
  shows "handleSlackWebhook pf env request = (\<lparr>rs_status = 200, rs_body = challenge\<rparr>, [])"
  using assms by (auto simp: handleSlackWebhook_def)

theorem handshake_echo_witness:
  "handleSlackWebhook handshakePlatform sampleEnv signedRequest
   = (\<lparr>rs_status = 200, rs_body = js ''abc123''\<rparr>, [])"
proof -
  have b: "wr_body signedRequest = Some (js ''{}'')" by (simp add: signedRequest_def)
  have v: "\<not> truthy (SLACK_SIGNING_SECRET sampleEnv)
         \<or> verifySlackSignature (pf_crypto handshakePlatform)
              (template (SLACK_SIGNING_SECRET sampleEnv))
              (orEmpty (wr_timestamp signedRequest)) (js ''{}'')
              (orEmpty (wr_signature signedRequest))"
    using sample_verify
    by (simp add: handshakePlatform_def samplePlatform_def sampleEnv_def signedRequest_def
        orEmpty_def truthy_def template_def js_def)
  have p: "parsePayload handshakePlatform (js ''{}'') = Some handshakePayload"
    by (simp add: handshakePlatform_def)
  have t: "pl_type handshakePayload = Some (js ''url_verification'')"
    and c: "pl_challenge handshakePayload = Some (js ''abc123'')"
    by (simp_all add: handshakePayload_def)
  from handshake_echo [OF b v p t c] show ?thesis .
qed

section \<open>Decoding the model's output in the two handlers\<close>

lemma sample_codeBlock: "codeBlockMatch sampleFenced = Some sampleInner"
  by (simp add: sampleFenced_def sampleInner_def quoted_def fence_def codeBlockAt_def eval_str)

lemma sample_fenced_neq: "sampleFenced \<noteq> sampleInner"
  by (simp add: sampleFenced_def sampleInner_def quoted_def fence_def eval_str)

text \<open>
  Claim C4. The decoder is to look for a fenced block first, at every call site. Take an
  output that holds a fenced block with the JSON of a plan, and that is no JSON as a
  whole. The chat handler decodes the plan from the block. The mention handler gives the
  whole text to \<open>JSON.parse\<close>, decodes nothing, builds no plan and posts the raw
  text with its fences as a plain message.
\<close>

theorem mention_ignores_code_block:
  assumes ai: "aiRun pf (fst (mentionMessages pf env (trim (removeMentions text)) channel)) 1000
               = Resolved (AiText t)"
    and block: "codeBlockMatch t = Some inner"
    and whole: "parseModelOutput pf t = None"
    and inner: "planEvent (parseModelOutput pf inner) = Some event"
  shows "planEvent (chatDecode pf (AiText t)) = Some event
       \<and> planEvent (mentionDecode pf (AiText t)) = None
       \<and> mr_eventPlan (handleSlackMention pf env text channel) = None
       \<and> mr_calls (handleSlackMention pf env text channel)
         = snd (mentionMessages pf env (trim (removeMentions text)) channel)
           @ [CallAi (fst (mentionMessages pf env (trim (removeMentions text)) channel)) 1000,
              CallPostMessage (SLACK_BOT_TOKEN env)
                \<lparr>sm_channel = channel, sm_text = AiText t, sm_blocks = None\<rparr>]"
proof -
  have c: "planEvent (chatDecode pf (AiText t)) = Some event"
    using block inner by (simp add: chatDecode_def)
  have m: "planEvent (mentionDecode pf (AiText t)) = None"
    using whole by (simp add: mentionDecode_def planEvent_def)
  obtain ms cs where mc: "mentionMessages pf env (trim (removeMentions text)) channel = (ms, cs)"
    by (cases "mentionMessages pf env (trim (removeMentions text)) channel")
  from ai mc have ai': "aiRun pf ms 1000 = Resolved (AiText t)" by simp
  have h: "handleSlackMention pf env text channel
           = \<lparr>mr_calls = (cs @ [CallAi ms 1000])
                 @ snd (postMessage pf (SLACK_BOT_TOKEN env)
                      \<lparr>sm_channel = channel, sm_text = AiText t, sm_blocks = None\<rparr>),
              mr_eventPlan = None, mr_result = None\<rparr>"
    using mc ai' m by (simp add: handleSlackMention_def Let_def)
  show ?thesis using c m h mc by (simp add: postMessage_def)
qed

theorem mention_ignores_code_block_witness:
  "codeBlockMatch sampleFenced = Some sampleInner
   \<and> parseModelOutput fencedPlatform sampleFenced = None
   \<and> planEvent (chatDecode fencedPlatform (AiText sampleFenced)) = Some sampleEvent
   \<and> planEvent (mentionDecode fencedPlatform (AiText sampleFenced)) = None
   \<and> mr_eventPlan (handleSlackMention fencedPlatform sampleEnv sampleMention
         (Some (js ''C042''))) = None"
proof -
  have ai: "aiRun fencedPlatform
       (fst (mentionMessages fencedPlatform sampleEnv (trim (removeMentions sampleMention))
          (Some (js ''C042'')))) 1000 = Resolved (AiText sampleFenced)"
    by (simp add: fencedPlatform_def)
  have whole: "parseModelOutput fencedPlatform sampleFenced = None"
    using sample_fenced_neq by (simp add: fencedPlatform_def samplePlatform_def)
  have inner: "planEvent (parseModelOutput fencedPlatform sampleInner) = Some sampleEvent"
    by (simp add: fencedPlatform_def samplePlatform_def planEvent_def sampleParsed_def)
  from mention_ignores_code_block [OF ai sample_codeBlock whole inner]
  show ?thesis using sample_codeBlock whole by simp
qed

text \<open>
  In the chat handler, an output of the model that does not decode to a plan is returned
  unchanged as the reply.
\<close>

theorem plain_reply_unchanged:
  assumes "\<forall>messages. aiRun pf messages 1024 = Resolved response"
    and "planEvent (chatDecode pf response) = None"
  shows "fst (handleChatRequest pf (Some given))
         = \<lparr>ch_status = 200, ch_body = ReplyBody response\<rparr>"
  using assms by (simp add: handleChatRequest_def Let_def)

theorem plain_reply_unchanged_witness:
  "planEvent (chatDecode prosePlatform (AiText (js ''When is the party?''))) = None
   \<and> fst (handleChatRequest prosePlatform
          (Some (Some [\<lparr>cm_role = js ''user'', cm_content = js ''plan a party''\<rparr>])))
       = \<lparr>ch_status = 200, ch_body = ReplyBody (AiText (js ''When is the party?''))\<rparr>"
proof -
  have a: "\<forall>messages. aiRun prosePlatform messages 1024
             = Resolved (AiText (js ''When is the party?''))"
    by (simp add: prosePlatform_def)
  have "codeBlockMatch (js ''When is the party?'') = None"
    by (simp add: codeBlockAt_def fence_def js_def)
  moreover have "js ''When is the party?'' \<noteq> sampleInner"
    by (simp add: sampleInner_def quoted_def js_def)
  ultimately have d: "planEvent (chatDecode prosePlatform (AiText (js ''When is the party?''))) = None"
    by (simp add: chatDecode_def prosePlatform_def samplePlatform_def planEvent_def)
  from plain_reply_unchanged [OF a d] show ?thesis using d by simp
qed

section \<open>The mention handler\<close>


















section \<open>The round trip of a plan\<close>

lemma field_date':
  "extractField p (mrkdwn (js ''*Date:*'' @ newline # d))
   = p\<lparr>pp_date := Some (Some (trim (takeWhile (\<lambda>c. c \<noteq> newline) d)))\<rparr>"
  using field_date [of p d] by simp

lemma field_guests':
  "extractField p (mrkdwn (js ''*Expected Guests:*'' @ newline # js ''TBD'')) = p"
  using field_guests [of p] by simp

lemma field_budget':
  assumes "set printed \<subseteq> {48..57} \<union> {44, 45, 46}"
  shows "extractField p (mrkdwn (js ''*Budget:*'' @ newline # js ''$'' @ printed))
         = p\<lparr>pp_budget := Some (Some (stripCurrency printed))\<rparr>"
  using field_budget [OF assms, of p] by simp

lemma field_venue':
  assumes "venue \<noteq> []" and "trim venue = venue" and "newline \<notin> set venue"
    and "\<not> includesStr venue (js ''Date:'')" and "\<not> includesStr venue (js ''Budget:'')"
  shows "extractField p (mrkdwn (js ''*Venue:*'' @ newline # venue))
         = p\<lparr>pp_venue := Some (Some venue)\<rparr>"
  using field_venue [OF assms, of p] by simp

lemma block_types:
  "js ''header'' \<noteq> js ''section''" "js ''divider'' \<noteq> js ''section''"
  "js ''context'' \<noteq> js ''section''" "js ''section'' \<noteq> js ''header''"
  by (simp_all add: js_def)

lemma encoded_blocks_decode:
  assumes title: "title \<noteq> []" "trim title = title" "\<not> includesStr title glyph"
    and budget: "set printed \<subseteq> {48..57} \<union> {44, 45, 46}"
    and venue: "venue \<noteq> []" "trim venue = venue" "newline \<notin> set venue"
      "\<not> includesStr venue (js ''Date:'')" "\<not> includesStr venue (js ''Budget:'')"
    and timeline: "timeline \<noteq> []"
      "\<forall>item \<in> set timeline. item \<noteq> [] \<and> newline \<notin> set item \<and> \<not> isWhiteSpace (last item)"
  shows "extractEventFromBlocks
           [\<lparr>sb_type = js ''header'',
             sb_text = Some \<lparr>to_type = js ''plain_text'', to_text = Some title\<rparr>,
             sb_fields = None, sb_elements = None\<rparr>,
            \<lparr>sb_type = js ''section'', sb_text = None,
             sb_fields = Some
               [mrkdwn (js ''*Date:*'' @ newline # longDate),
                mrkdwn (js ''*Expected Guests:*'' @ newline # js ''TBD''),
                mrkdwn (js ''*Budget:*'' @ newline # js ''$'' @ printed),
                mrkdwn (js ''*Venue:*'' @ newline # venue)],
             sb_elements = None\<rparr>,
            sectionText (js ''*Timeline:*'' @ newline # join [newline] (numbered 0 timeline)),
            \<lparr>sb_type = js ''divider'', sb_text = None, sb_fields = None,
             sb_elements = None\<rparr>,
            \<lparr>sb_type = js ''context'', sb_text = None, sb_fields = None,
             sb_elements = Some [mrkdwn stamp]\<rparr>]
         = Some \<lparr>pp_title = Some title,
                 pp_date = Some (Some (trim (takeWhile (\<lambda>c. c \<noteq> newline) longDate))),
                 pp_budget = Some (Some (stripCurrency printed)),
                 pp_venue = Some (Some venue),
                 pp_timeline = Some (numbered 0 timeline)\<rparr>"
proof -
  let ?fields = "\<lparr>sb_type = js ''section'', sb_text = None,
                  sb_fields = Some
                    [mrkdwn (js ''*Date:*'' @ newline # longDate),
                     mrkdwn (js ''*Expected Guests:*'' @ newline # js ''TBD''),
                     mrkdwn (js ''*Budget:*'' @ newline # js ''$'' @ printed),
                     mrkdwn (js ''*Venue:*'' @ newline # venue)],
                  sb_elements = None\<rparr>"
  let ?timeline = "sectionText (js ''*Timeline:*'' @ newline # join [newline] (numbered 0 timeline))"
  have tt: "truthy (Some title)" using title(1) by (simp add: truthy_def)
  have t: "trim (removeGlyph title) = title"
    using title(2,3) by (simp add: removeGlyph_id)
  have fs: "extractSection p ?fields
            = p\<lparr>pp_date := Some (Some (trim (takeWhile (\<lambda>c. c \<noteq> newline) longDate))),
                 pp_budget := Some (Some (stripCurrency printed)),
                 pp_venue := Some (Some venue)\<rparr>" for p
    using field_venue' [OF venue] field_budget' [OF budget]
    by (simp add: extractSection_def field_date' field_guests')
  have ts: "extractSection p ?timeline = p\<lparr>pp_timeline := Some (numbered 0 timeline)\<rparr>" for p
    using timeline by (rule section_timeline)
  have st: "sb_type ?timeline = js ''section''" by (simp add: sectionText_def)
  show ?thesis
    unfolding extractEventFromBlocks_def
    using tt t st
    by (simp add: block_types blockText_def template_def Let_def fs ts emptyPlan_def keyCount_def
        del: foldl_Cons)
       (simp add: fs ts)
qed

lemma format_representable:
  assumes "ep_title plan = Some title" and "ep_date plan = Some date"
    and "ep_budget plan = Some budget" and "ep_venue plan = Some venue" and "venue \<noteq> []"
    and "ep_timeline plan = Some timeline" and "timeline \<noteq> []"
    and "ep_guests plan = Some []" and "\<not> truthy (ep_description plan)"
  shows "\<exists>message. formatEventMessage pf plan = Inr message
           \<and> sm_text message = AiText (js ''Event Plan: '' @ title)
           \<and> sm_blocks message = Some
               [\<lparr>sb_type = js ''header'',
                 sb_text = Some \<lparr>to_type = js ''plain_text'', to_text = Some title\<rparr>,
                 sb_fields = None, sb_elements = None\<rparr>,
                \<lparr>sb_type = js ''section'', sb_text = None,
                 sb_fields = Some
                   [mrkdwn (js ''*Date:*'' @ newline # toLongDate pf (Some date)),
                    mrkdwn (js ''*Expected Guests:*'' @ newline # js ''TBD''),
                    mrkdwn (js ''*Budget:*'' @ newline # js ''$'' @ toLocaleString pf budget),
                    mrkdwn (js ''*Venue:*'' @ newline # venue)],
                 sb_elements = None\<rparr>,
                sectionText (js ''*Timeline:*'' @ newline # join [newline] (numbered 0 timeline)),
                \<lparr>sb_type = js ''divider'', sb_text = None, sb_fields = None,
                 sb_elements = None\<rparr>,
                \<lparr>sb_type = js ''context'', sb_text = None, sb_fields = None,
                 sb_elements = Some
                   [mrkdwn (js ''Event created by AI Event Planner '' @ bullet
                            @ todayShortDate pf)]\<rparr>]"
proof -
  have "truthy (Some venue)" using assms(5) by (simp add: truthy_def)
  then show ?thesis
    using assms by (simp add: formatEventMessage_def Let_def template_def)
qed

lemma encodeDecode_representable:
  assumes title: "ep_title plan = Some title" "title \<noteq> []" "trim title = title"
      "\<not> includesStr title glyph"
    and date: "ep_date plan = Some date"
    and budget: "ep_budget plan = Some budget"
      "set (toLocaleString pf budget) \<subseteq> {48..57} \<union> {44, 45, 46}"
    and venue: "ep_venue plan = Some venue" "venue \<noteq> []" "trim venue = venue"
      "newline \<notin> set venue" "\<not> includesStr venue (js ''Date:'')"
      "\<not> includesStr venue (js ''Budget:'')"
    and timeline: "ep_timeline plan = Some timeline" "timeline \<noteq> []"
      "\<forall>item \<in> set timeline. item \<noteq> [] \<and> newline \<notin> set item \<and> \<not> isWhiteSpace (last item)"
    and guests: "ep_guests plan = Some []"
    and description: "\<not> truthy (ep_description plan)"
  shows "encodeDecode pf plan
         = Some \<lparr>pp_title = Some title,
                 pp_date = Some (Some (trim (takeWhile (\<lambda>c. c \<noteq> newline)
                                               (toLongDate pf (Some date))))),
                 pp_budget = Some (Some (stripCurrency (toLocaleString pf budget))),
                 pp_venue = Some (Some venue),
                 pp_timeline = Some (numbered 0 timeline)\<rparr>"
proof -
  obtain message blocks where m: "formatEventMessage pf plan = Inr message"
    and b: "sm_blocks message = Some blocks"
    and d: "extractEventFromBlocks blocks
            = Some \<lparr>pp_title = Some title,
                    pp_date = Some (Some (trim (takeWhile (\<lambda>c. c \<noteq> newline)
                                                  (toLongDate pf (Some date))))),
                    pp_budget = Some (Some (stripCurrency (toLocaleString pf budget))),
                    pp_venue = Some (Some venue),
                    pp_timeline = Some (numbered 0 timeline)\<rparr>"
    using format_representable [OF title(1) date budget(1) venue(1,2) timeline(1,2) guests
        description, of pf]
      encoded_blocks_decode [OF title(2-4) budget(2) venue(2-6) timeline(2,3)]
    by blast
  show ?thesis unfolding encodeDecode_def using m b d by simp
qed

lemma sample_numbered:
  "numbered 0 [js ''Book venue'', js ''Send invites''] = [js ''1. Book venue'', js ''2. Send invites'']"
  by (simp add: eval_str)

lemma sample_plan_fields:
  "ep_title samplePlan = Some (js ''Launch Party'')"
  "ep_date samplePlan = Some (js ''2025-03-14'')"
  "ep_budget samplePlan = Some (Finite 1500 0)"
  "ep_venue samplePlan = Some (js ''Town Hall'')"
  "ep_timeline samplePlan = Some [js ''Book venue'', js ''Send invites'']"
  "ep_guests samplePlan = Some []"
  "\<not> truthy (ep_description samplePlan)"
  by (simp_all add: samplePlan_def mentionPlan_def sampleEvent_def truthy_def)

lemma sample_title:
  "js ''Launch Party'' \<noteq> []" "trim (js ''Launch Party'') = js ''Launch Party''"
  "\<not> includesStr (js ''Launch Party'') glyph"
  by (simp_all add: glyph_def eval_str)

lemma sample_venue:
  "js ''Town Hall'' \<noteq> []" "trim (js ''Town Hall'') = js ''Town Hall''"
  "newline \<notin> set (js ''Town Hall'')"
  "\<not> includesStr (js ''Town Hall'') (js ''Date:'')"
  "\<not> includesStr (js ''Town Hall'') (js ''Budget:'')"
  by (simp_all add: eval_str)

lemma sample_timeline:
  "[js ''Book venue'', js ''Send invites''] \<noteq> []"
  "\<forall>item \<in> set [js ''Book venue'', js ''Send invites''].
     item \<noteq> [] \<and> newline \<notin> set item \<and> \<not> isWhiteSpace (last item)"
  by (simp_all add: eval_str)

lemma sample_long_date:
  "trim (takeWhile (\<lambda>c. c \<noteq> newline) (toLongDate samplePlatform (Some (js ''2025-03-14''))))
   = js ''Friday, March 14, 2025''"
  by (simp add: samplePlatform_def eval_str)

lemma sample_print: "toLocaleString samplePlatform (Finite 1500 0) = js ''1,500''"
  by (simp add: samplePlatform_def samplePrint_def eval_str)

lemma sample_print_chars:
  "set (toLocaleString samplePlatform (Finite 1500 0)) \<subseteq> {48..57} \<union> {44, 45, 46}"
  unfolding sample_print by (simp add: js_def)

lemma sample_budget: "stripCurrency (js ''1,500'') = js ''1500''"
  by (simp add: stripCurrency_def js_def)

lemma sample_print_big:
  "toLocaleString samplePlatform (Finite 1 60) = js ''1,152,921,504,606,847,000''"
  by (simp add: samplePlatform_def samplePrint_def)

lemma sample_print_big_chars:
  "set (toLocaleString samplePlatform (Finite 1 60)) \<subseteq> {48..57} \<union> {44, 45, 46}"
  unfolding sample_print_big by (simp add: js_def)

lemma sample_budget_big:
  "stripCurrency (js ''1,152,921,504,606,847,000'') = js ''1152921504606847000''"
  by (simp add: stripCurrency_def js_def)

lemma sample_differs:
  "js ''Friday, March 14, 2025'' \<noteq> js ''2025-03-14''"
  "[js ''1. Book venue'', js ''2. Send invites''] \<noteq> [js ''Book venue'', js ''Send invites'']"
  by (simp_all add: js_def)

text \<open>
  Claim C1, as amended. Take a plan with a title, a date, a budget, a venue and a timeline
  that is not empty, with no guests and no description; let the title and the venue be
  free of white space at their ends, the title free of the glyph, the venue on one line
  and free of the labels \<open>Date:\<close> and \<open>Budget:\<close>, every item of the timeline be not
  empty, on one line and without white space at its end, and the text that
  \<open>toLocaleString\<close> prints for the budget be made of digits, commas, periods and
  minus signs. Decoding the encoded message gives back the title and the venue as they
  were; the date comes back as the first line, trimmed, of the long form the encoder
  printed, the budget as the text that was printed for it without its commas, and the
  timeline as the ordered list of the numbered lines \<open>N. item\<close>. For a budget that
  is printed as the groups of the digits of a whole number, the budget that comes back
  is the text of the decimal digits of that number.
\<close>

theorem round_trip:
  assumes title: "ep_title plan = Some title" "title \<noteq> []" "trim title = title"
      "\<not> includesStr title glyph"
    and date: "ep_date plan = Some date"
    and budget: "ep_budget plan = Some budget"
      "set (toLocaleString pf budget) \<subseteq> {48..57} \<union> {44, 45, 46}"
    and venue: "ep_venue plan = Some venue" "venue \<noteq> []" "trim venue = venue"
      "newline \<notin> set venue" "\<not> includesStr venue (js ''Date:'')"
      "\<not> includesStr venue (js ''Budget:'')"
    and timeline: "ep_timeline plan = Some timeline" "timeline \<noteq> []"
      "\<forall>item \<in> set timeline. item \<noteq> [] \<and> newline \<notin> set item \<and> \<not> isWhiteSpace (last item)"
    and guests: "ep_guests plan = Some []"
    and description: "\<not> truthy (ep_description plan)"
  shows "encodeDecode pf plan
         = Some \<lparr>pp_title = Some title,
                 pp_date = Some (Some (trim (takeWhile (\<lambda>c. c \<noteq> newline)
                                               (toLongDate pf (Some date))))),
                 pp_budget = Some (Some (filter (\<lambda>c. c \<noteq> 44) (toLocaleString pf budget))),
                 pp_venue = Some (Some venue),
                 pp_timeline = Some (numbered 0 timeline)\<rparr>
       \<and> (\<forall>n. toLocaleString pf budget = groupThousands n
             \<longrightarrow> map_option pp_budget (encodeDecode pf plan) = Some (Some (Some (showNat n))))"
proof -
  have "36 \<notin> set (toLocaleString pf budget)" using budget(2) by auto
  then have commas: "stripCurrency (toLocaleString pf budget)
                     = filter (\<lambda>c. c \<noteq> 44) (toLocaleString pf budget)"
    unfolding stripCurrency_def by (intro filter_cong) auto
  have decoded: "encodeDecode pf plan
         = Some \<lparr>pp_title = Some title,
                 pp_date = Some (Some (trim (takeWhile (\<lambda>c. c \<noteq> newline)
                                               (toLongDate pf (Some date))))),
                 pp_budget = Some (Some (stripCurrency (toLocaleString pf budget))),
                 pp_venue = Some (Some venue),
                 pp_timeline = Some (numbered 0 timeline)\<rparr>"
    using title date budget venue timeline guests description
    by (rule encodeDecode_representable)
  have whole: "map_option pp_budget (encodeDecode pf plan) = Some (Some (Some (showNat n)))"
    if "toLocaleString pf budget = groupThousands n" for n
    using decoded that by (simp add: stripCurrency_groupThousands)
  from decoded commas whole show ?thesis by simp
qed

text \<open>Claim C1 as stated fails: the date that comes back is not the date of the plan,
  the budget that comes back is a text, and the timeline that comes back carries the
  numbering.\<close>

theorem round_trip_not_identical:
  "ep_date samplePlan = Some (js ''2025-03-14'')
   \<and> ep_timeline samplePlan = Some [js ''Book venue'', js ''Send invites'']
   \<and> ep_budget samplePlan = Some (Finite 1500 0)
   \<and> encodeDecode samplePlatform samplePlan
       = Some \<lparr>pp_title = Some (js ''Launch Party''),
               pp_date = Some (Some (js ''Friday, March 14, 2025'')),
               pp_budget = Some (Some (js ''1500'')),
               pp_venue = Some (Some (js ''Town Hall'')),
               pp_timeline = Some [js ''1. Book venue'', js ''2. Send invites'']\<rparr>
   \<and> js ''Friday, March 14, 2025'' \<noteq> js ''2025-03-14''
   \<and> [js ''1. Book venue'', js ''2. Send invites''] \<noteq> [js ''Book venue'', js ''Send invites'']"
proof -
  have "encodeDecode samplePlatform samplePlan
        = Some \<lparr>pp_title = Some (js ''Launch Party''),
                pp_date = Some (Some (js ''Friday, March 14, 2025'')),
                pp_budget = Some (Some (js ''1500'')),
                pp_venue = Some (Some (js ''Town Hall'')),
                pp_timeline = Some [js ''1. Book venue'', js ''2. Send invites'']\<rparr>"
    using encodeDecode_representable [OF sample_plan_fields(1) sample_title
        sample_plan_fields(2,3) sample_print_chars sample_plan_fields(4) sample_venue
        sample_plan_fields(5) sample_timeline sample_plan_fields(6,7)]
      sample_long_date sample_print sample_budget sample_numbered
    by simp
  then show ?thesis using sample_plan_fields sample_differs by simp
qed

lemma big_plan_fields:
  "ep_title bigPlan = Some (js ''Launch Party'')"
  "ep_date bigPlan = Some (js ''2025-03-14'')"
  "ep_budget bigPlan = Some (Finite 1 60)"
  "ep_venue bigPlan = Some (js ''Town Hall'')"
  "ep_timeline bigPlan = Some [js ''Book venue'', js ''Send invites'']"
  "ep_guests bigPlan = Some []"
  "\<not> truthy (ep_description bigPlan)"
  using sample_plan_fields by (simp_all add: bigPlan_def)

theorem round_trip_witness:
  "ep_title samplePlan = Some (js ''Launch Party'')
   \<and> trim (js ''Launch Party'') = js ''Launch Party''
   \<and> \<not> includesStr (js ''Launch Party'') glyph
   \<and> ep_venue samplePlan = Some (js ''Town Hall'')
   \<and> trim (js ''Town Hall'') = js ''Town Hall''
   \<and> ep_guests samplePlan = Some []
   \<and> toLocaleString samplePlatform (Finite 1500 0) = js ''1,500''
   \<and> encodeDecode samplePlatform samplePlan
       = Some \<lparr>pp_title = Some (js ''Launch Party''),
               pp_date = Some (Some (js ''Friday, March 14, 2025'')),
               pp_budget = Some (Some (js ''1500'')),
               pp_venue = Some (Some (js ''Town Hall'')),
               pp_timeline = Some [js ''1. Book venue'', js ''2. Send invites'']\<rparr>
   \<and> ep_budget bigPlan = Some (Finite 1 60)
   \<and> toLocaleString samplePlatform (Finite 1 60) = js ''1,152,921,504,606,847,000''
   \<and> map_option pp_budget (encodeDecode samplePlatform bigPlan)
       = Some (Some (Some (js ''1152921504606847000'')))"
proof -
  have f: "filter (\<lambda>c. c \<noteq> 44) (js ''1,500'') = js ''1500''"
    "filter (\<lambda>c. c \<noteq> 44) (js ''1,152,921,504,606,847,000'') = js ''1152921504606847000''"
    by (simp_all add: js_def)
  from round_trip [OF sample_plan_fields(1) sample_title sample_plan_fields(2,3)
      sample_print_chars sample_plan_fields(4) sample_venue sample_plan_fields(5)
      sample_timeline sample_plan_fields(6,7)]
  have small: "encodeDecode samplePlatform samplePlan
       = Some \<lparr>pp_title = Some (js ''Launch Party''),
               pp_date = Some (Some (js ''Friday, March 14, 2025'')),
               pp_budget = Some (Some (js ''1500'')),
               pp_venue = Some (Some (js ''Town Hall'')),
               pp_timeline = Some [js ''1. Book venue'', js ''2. Send invites'']\<rparr>"
    using sample_long_date sample_print f sample_numbered by simp
  from round_trip [OF big_plan_fields(1) sample_title big_plan_fields(2,3)
      sample_print_big_chars big_plan_fields(4) sample_venue big_plan_fields(5)
      sample_timeline big_plan_fields(6,7)]
  have big: "map_option pp_budget (encodeDecode samplePlatform bigPlan)
       = Some (Some (Some (js ''1152921504606847000'')))"
    using sample_print_big f by simp
  show ?thesis
    using small big sample_plan_fields sample_title sample_venue sample_print
      sample_print_big big_plan_fields
    by simp
qed

section \<open>The context builder\<close>


text \<open>The handler of a mention builds its prompt from \<open>findRecentPlan\<close>.\<close>

lemma mentionMessages_findRecentPlan:
  assumes "list_ex (\<lambda>keyword. includesStr (toLowerCase pf cleanText) keyword)
             modificationKeywords"
    and "truthy (SLACK_BOT_TOKEN env)"
  shows "fst (mentionMessages pf env cleanText channel)
         = (case findRecentPlan pf channel (template (SLACK_BOT_TOKEN env)) of
              Some recentEventPlan \<Rightarrow>
                [\<lparr>cm_role = js ''system'', cm_content = focusedContext recentEventPlan\<rparr>,
                 \<lparr>cm_role = js ''user'', cm_content = cleanText\<rparr>]
            | None \<Rightarrow>
                [\<lparr>cm_role = js ''system'', cm_content = SLACK_SYSTEM_PROMPT pf\<rparr>,
                 \<lparr>cm_role = js ''user'', cm_content = cleanText @ noContextNote\<rparr>])"
  using assms
  by (simp add: mentionMessages_def findRecentPlan_def Let_def split: prod.splits option.splits)





















end
